theory Spec2Isabelle
  imports Complex_Main
begin

section \<open>Python values and exceptions\<close>

text \<open>
  The backend computes with \<open>decimal.Decimal\<close> under a context of 28 significant digits
  (\<open>getcontext().prec = 28\<close> at the top of every module).  A finite Decimal is a signed
  coefficient and an exponent; its value is \<open>coeff * 10 ^ expo\<close>.  The model covers the
  finite decimals only: NaN, the infinities, the sign of zero and the exponent limits of the
  context are not represented.
\<close>

datatype decimal = Decimal (coeff: int) (expo: int)

text \<open>
  An argument typed \<open>object\<close> in the source: \<open>None\<close>, a value that \<open>Decimal(value)\<close>
  converts (a Decimal, an int, a float, a numeric string; it is represented by the finite
  decimal the conversion yields), or anything else, on which \<open>Decimal(value)\<close> raises
  InvalidOperation, TypeError or ValueError.
\<close>

datatype pyobj = PyNone | PyNum decimal | PyOther

text \<open>The exception classes of the modules, one constructor per class.\<close>

datatype error =
    DecimalInvalidOperation
  | AttributeError
  | ValueError
  | KeyError
  | RuntimeError
  | Accounts_InvalidAmountError
  | Accounts_InsufficientFundsError
  | Validators_InvalidAmountError
  | Validators_UnsupportedSymbolError
  | Validators_InsufficientFundsError
  | Validators_InsufficientHoldingsError
  | InvalidTransactionError
  | InvalidQuantityError
  | InvalidPriceError
  | InsufficientQuantityError
  | PortfolioNotFoundError
  | AccountNotFoundError
  | Pricing_UnsupportedSymbolError
  | ValuationError
  | TradingError
  | InvalidAmount
  | TypeError
  | DecimalConversionError

section \<open>Decimal arithmetic\<close>

definition PREC :: nat where
  "PREC = 28"

definition CENT :: int where
  "CENT = - 2"

definition QTY :: int where
  "QTY = - 8"

definition py_Decimal :: "pyobj \<Rightarrow> decimal option" where
  "py_Decimal v = (case v of PyNum d \<Rightarrow> Some d | _ \<Rightarrow> None)"

text \<open>Comparison is by value: both coefficients are brought to the smaller exponent.\<close>

definition dec_align :: "decimal \<Rightarrow> decimal \<Rightarrow> int \<times> int" where
  "dec_align x y =
     (let m = min (expo x) (expo y)
      in (coeff x * 10 ^ nat (expo x - m), coeff y * 10 ^ nat (expo y - m)))"

definition dec_less :: "decimal \<Rightarrow> decimal \<Rightarrow> bool" where
  "dec_less x y = (fst (dec_align x y) < snd (dec_align x y))"

definition dec_le :: "decimal \<Rightarrow> decimal \<Rightarrow> bool" where
  "dec_le x y = (fst (dec_align x y) \<le> snd (dec_align x y))"

definition dec_eq :: "decimal \<Rightarrow> decimal \<Rightarrow> bool" where
  "dec_eq x y = (fst (dec_align x y) = snd (dec_align x y))"

definition dec_zero :: decimal where
  "dec_zero = Decimal 0 0"

text \<open>
  \<open>ROUND_HALF_UP\<close> of \<open>c / 10 ^ k\<close>: to the nearest integer, a tie going away from zero.
\<close>

definition round_half_up :: "int \<Rightarrow> nat \<Rightarrow> int" where
  "round_half_up c k =
     (let d = 10 ^ k; m = \<bar>c\<bar> div d; r = \<bar>c\<bar> mod d
      in sgn c * (if d \<le> 2 * r then m + 1 else m))"

text \<open>
  \<open>x.quantize(Decimal(10) ** q, rounding=ROUND_HALF_UP)\<close>.  The result has exponent
  \<open>q\<close>; when its coefficient would need more than \<open>PREC\<close> digits the operation signals
  InvalidOperation, which the default context raises.
\<close>

definition quantize :: "int \<Rightarrow> decimal \<Rightarrow> error + decimal" where
  "quantize q x =
     (let c = (if q \<le> expo x then coeff x * 10 ^ nat (expo x - q)
               else round_half_up (coeff x) (nat (q - expo x)))
      in if 10 ^ PREC \<le> \<bar>c\<bar> then Inl DecimalInvalidOperation else Inr (Decimal c q))"

text \<open>
  The result of \<open>+\<close>, \<open>-\<close> and \<open>*\<close> is the exact result rounded to the context:
  a coefficient of more than \<open>PREC\<close> digits loses its last digits, \<open>ROUND_HALF_EVEN\<close>
  (the context's default rounding), and the exponent grows by as much.
\<close>

fun ndigits :: "nat \<Rightarrow> nat" where
  "ndigits n = (if n < 10 then 1 else Suc (ndigits (n div 10)))"

definition round_half_even :: "nat \<Rightarrow> nat \<Rightarrow> nat" where
  "round_half_even n k =
     (let d = 10 ^ k; m = n div d; r = n mod d
      in if d < 2 * r \<or> (2 * r = d \<and> odd m) then m + 1 else m)"

definition ctx_fix :: "decimal \<Rightarrow> decimal" where
  "ctx_fix x =
     (let n = ndigits (nat \<bar>coeff x\<bar>)
      in if n \<le> PREC then x
         else
           (let k = n - PREC; m = round_half_even (nat \<bar>coeff x\<bar>) k
            in if 10 ^ PREC \<le> m
               then Decimal (sgn (coeff x) * int (m div 10)) (expo x + int k + 1)
               else Decimal (sgn (coeff x) * int m) (expo x + int k)))"

definition dec_add :: "decimal \<Rightarrow> decimal \<Rightarrow> decimal" where
  "dec_add x y =
     ctx_fix (Decimal (fst (dec_align x y) + snd (dec_align x y)) (min (expo x) (expo y)))"

definition dec_sub :: "decimal \<Rightarrow> decimal \<Rightarrow> decimal" where
  "dec_sub x y =
     ctx_fix (Decimal (fst (dec_align x y) - snd (dec_align x y)) (min (expo x) (expo y)))"

definition dec_mul :: "decimal \<Rightarrow> decimal \<Rightarrow> decimal" where
  "dec_mul x y = ctx_fix (Decimal (coeff x * coeff y) (expo x + expo y))"

section \<open>validators.py\<close>

definition to_decimal_cents :: "pyobj \<Rightarrow> error + decimal" where
  "to_decimal_cents v =
     (case py_Decimal v of
        None \<Rightarrow> Inl Validators_InvalidAmountError
      | Some dec \<Rightarrow> quantize CENT dec)"

definition to_quantity :: "pyobj \<Rightarrow> error + decimal" where
  "to_quantity v =
     (case py_Decimal v of
        None \<Rightarrow> Inl Validators_InvalidAmountError
      | Some dec \<Rightarrow> quantize QTY dec)"

definition validate_amount :: "pyobj \<Rightarrow> error + decimal" where
  "validate_amount amount =
     (case to_decimal_cents amount of
        Inl e \<Rightarrow> Inl e
      | Inr dec \<Rightarrow>
          if dec_le dec dec_zero then Inl Validators_InvalidAmountError else Inr dec)"

text \<open>
  \<open>OperationValidator.validate_sufficient_funds\<close>: only the InvalidAmountError of the
  balance's conversion is caught and turned into InsufficientFundsError; an
  InvalidOperation of its quantization passes through.
\<close>

definition validate_sufficient_funds :: "pyobj \<Rightarrow> pyobj \<Rightarrow> error + decimal" where
  "validate_sufficient_funds balance amount =
     (case validate_amount amount of
        Inl e \<Rightarrow> Inl e
      | Inr amt \<Rightarrow>
          (case to_decimal_cents balance of
             Inl e \<Rightarrow>
               if e = Validators_InvalidAmountError then Inl Validators_InsufficientFundsError
               else Inl e
           | Inr bal \<Rightarrow>
               if dec_less bal amt then Inl Validators_InsufficientFundsError else Inr amt))"

definition validate_sufficient_quantity :: "pyobj \<Rightarrow> pyobj \<Rightarrow> error + decimal" where
  "validate_sufficient_quantity holding_quantity quantity =
     (case to_quantity quantity of
        Inl e \<Rightarrow> Inl e
      | Inr qty \<Rightarrow>
          if dec_le qty dec_zero then Inl Validators_InvalidAmountError
          else
            (case to_quantity holding_quantity of
               Inl e \<Rightarrow>
                 if e = Validators_InvalidAmountError then Inl Validators_InsufficientHoldingsError
                 else Inl e
             | Inr hold \<Rightarrow>
                 if dec_less hold qty then Inl Validators_InsufficientHoldingsError
                 else Inr qty))"

section \<open>accounts.py\<close>

record account =
  acct_owner :: string
  acct_account_id :: string
  acct_balance :: decimal
  acct_currency :: string

text \<open>\<open>accounts._to_decimal\<close>: the conversion is inside the \<open>try\<close>, the quantization after it.\<close>

definition accounts_to_decimal :: "pyobj \<Rightarrow> error + decimal" where
  "accounts_to_decimal amount =
     (case py_Decimal amount of
        None \<Rightarrow> Inl Accounts_InvalidAmountError
      | Some dec \<Rightarrow> quantize CENT dec)"

text \<open>
  \<open>Account.__post_init__\<close>, run by every construction (\<open>Account.create\<close> included):
  the balance is quantized to cents and must not be negative.
\<close>

definition Account_init :: "string \<Rightarrow> string \<Rightarrow> pyobj \<Rightarrow> string \<Rightarrow> error + account" where
  "Account_init owner account_id balance currency =
     (case accounts_to_decimal balance of
        Inl e \<Rightarrow> Inl e
      | Inr b \<Rightarrow>
          if dec_less b dec_zero then Inl Accounts_InvalidAmountError
          else Inr \<lparr>acct_owner = owner, acct_account_id = account_id,
                    acct_balance = b, acct_currency = currency\<rparr>)"

text \<open>
  \<open>Account.deposit\<close> and \<open>Account.withdraw\<close> return the call's outcome (the exception
  raised, or the new balance) together with the account object as the call leaves it.
\<close>

definition deposit :: "account \<Rightarrow> pyobj \<Rightarrow> (error + decimal) \<times> account" where
  "deposit self amount =
     (case accounts_to_decimal amount of
        Inl e \<Rightarrow> (Inl e, self)
      | Inr dec_amount \<Rightarrow>
          if dec_le dec_amount dec_zero then (Inl Accounts_InvalidAmountError, self)
          else
            (case quantize CENT (dec_add (acct_balance self) dec_amount) of
               Inl e \<Rightarrow> (Inl e, self)
             | Inr b \<Rightarrow> (Inr b, self\<lparr>acct_balance := b\<rparr>)))"

definition withdraw :: "account \<Rightarrow> pyobj \<Rightarrow> (error + decimal) \<times> account" where
  "withdraw self amount =
     (case accounts_to_decimal amount of
        Inl e \<Rightarrow> (Inl e, self)
      | Inr dec_amount \<Rightarrow>
          if dec_le dec_amount dec_zero then (Inl Accounts_InvalidAmountError, self)
          else if dec_less (acct_balance self) dec_amount
          then (Inl Accounts_InsufficientFundsError, self)
          else
            (case quantize CENT (dec_sub (acct_balance self) dec_amount) of
               Inl e \<Rightarrow> (Inl e, self)
             | Inr b \<Rightarrow> (Inr b, self\<lparr>acct_balance := b\<rparr>)))"

definition get_balance :: "account \<Rightarrow> decimal" where
  "get_balance self = acct_balance self"

text \<open>
  A caller's sequence of calls on one account.  \<open>run_ops\<close> gives the account after each
  call when every call of the sequence returns, and \<open>None\<close> as soon as one raises.
  \<open>net_cents\<close> adds up the amounts of the sequence, each one in cents as
  \<open>_to_decimal\<close> quantized it, deposits counted positive and withdrawals negative.
\<close>

datatype account_op = Deposit pyobj | Withdraw pyobj

definition apply_op :: "account \<Rightarrow> account_op \<Rightarrow> (error + decimal) \<times> account" where
  "apply_op a x = (case x of Deposit v \<Rightarrow> deposit a v | Withdraw v \<Rightarrow> withdraw a v)"

fun run_ops :: "account \<Rightarrow> account_op list \<Rightarrow> account list option" where
  "run_ops a [] = Some []"
| "run_ops a (x # xs) =
     (case apply_op a x of
        (Inl e, _) \<Rightarrow> None
      | (Inr b, a') \<Rightarrow> map_option (\<lambda>tr. a' # tr) (run_ops a' xs))"

definition cents :: "pyobj \<Rightarrow> int" where
  "cents v = (case accounts_to_decimal v of Inl e \<Rightarrow> 0 | Inr d \<Rightarrow> coeff d)"

fun net_cents :: "account_op list \<Rightarrow> int" where
  "net_cents [] = 0"
| "net_cents (Deposit v # xs) = cents v + net_cents xs"
| "net_cents (Withdraw v # xs) = - cents v + net_cents xs"

text \<open>
  What \<open>Account.__post_init__\<close> establishes and every call keeps: the balance is a
  number of cents, not negative, within the context's precision.
\<close>

definition account_ok :: "account \<Rightarrow> bool" where
  "account_ok a \<longleftrightarrow>
     expo (acct_balance a) = CENT \<and> 0 \<le> coeff (acct_balance a)
     \<and> coeff (acct_balance a) < 10 ^ PREC"

section \<open>transaction.py\<close>

text \<open>
  A \<open>datetime\<close> is its naive wall-clock reading (kept abstract as a number) and its
  \<open>tzinfo\<close>, \<open>None\<close> for a naive value; \<open>replace(tzinfo=timezone.utc)\<close> only sets the
  latter.
\<close>

datatype tzinfo = UTC | Offset int

record datetime =
  dt_naive :: int
  dt_tzinfo :: "tzinfo option"

definition replace_tzinfo_utc :: "datetime \<Rightarrow> datetime" where
  "replace_tzinfo_utc dt = dt\<lparr>dt_tzinfo := Some UTC\<rparr>"

text \<open>
  The fields of the frozen dataclass \<open>Transaction\<close>, holding what the constructor was
  given: the annotations are not enforced, so the numeric fields hold any object.
\<close>

record transaction =
  tx_transaction_id :: string
  tx_kind :: string
  tx_account_id :: "string option"
  tx_from_account :: "string option"
  tx_to_account :: "string option"
  tx_quantity :: pyobj
  tx_price :: pyobj
  tx_amount :: pyobj
  tx_profit_loss :: pyobj
  tx_created_at :: datetime
  tx_executed_at :: "datetime option"
  tx_metadata :: "(string \<times> string) list option"

definition ALLOWED_KINDS :: "string list" where
  "ALLOWED_KINDS = [''deposit'', ''withdrawal'', ''buy'', ''sell'']"

text \<open>\<open>transaction._to_decimal\<close> and \<open>transaction._to_quantity\<close>.\<close>

definition transaction_to_decimal :: "pyobj \<Rightarrow> error + decimal" where
  "transaction_to_decimal v =
     (case py_Decimal v of
        None \<Rightarrow> Inl InvalidTransactionError
      | Some dec \<Rightarrow> quantize CENT dec)"

definition transaction_to_quantity :: "pyobj \<Rightarrow> error + decimal" where
  "transaction_to_quantity v =
     (case py_Decimal v of
        None \<Rightarrow> Inl InvalidTransactionError
      | Some dec \<Rightarrow> quantize QTY dec)"

text \<open>Python's truth value of an \<open>Optional[str]\<close>: \<open>None\<close> and the empty string are false.\<close>

definition truthy :: "string option \<Rightarrow> bool" where
  "truthy v = (case v of None \<Rightarrow> False | Some str \<Rightarrow> str \<noteq> [])"

text \<open>
  Lines 149 to 176 of \<open>Transaction.__post_init__\<close>: quantity and price are normalized,
  the amount is computed from them and a profit or loss that is present is normalized.
  Each \<open>except InvalidTransactionError\<close> raises InvalidTransactionError again; an
  InvalidOperation of a quantization is not caught.
\<close>

definition normalize_trade :: "transaction \<Rightarrow> error + transaction" where
  "normalize_trade self =
     (case transaction_to_quantity (tx_quantity self) of
        Inl e \<Rightarrow> Inl e
      | Inr qty \<Rightarrow>
          (case transaction_to_decimal (tx_price self) of
             Inl e \<Rightarrow> Inl e
           | Inr pr \<Rightarrow>
               if dec_le qty dec_zero then Inl InvalidTransactionError
               else if dec_le pr dec_zero then Inl InvalidTransactionError
               else
                 (case quantize CENT (dec_mul qty pr) of
                    Inl e \<Rightarrow> Inl e
                  | Inr amt \<Rightarrow>
                      (let self1 = self\<lparr>tx_quantity := PyNum qty, tx_price := PyNum pr,
                                         tx_amount := PyNum amt\<rparr>
                       in if tx_profit_loss self1 \<noteq> PyNone
                          then
                            (case transaction_to_decimal (tx_profit_loss self1) of
                               Inl e \<Rightarrow> Inl e
                             | Inr pl \<Rightarrow> Inr (self1\<lparr>tx_profit_loss := PyNum pl\<rparr>))
                          else Inr self1))))"

text \<open>
  \<open>Transaction.__post_init__\<close>, as the file indents it.  The \<open>else\<close> commented
  \<open>buy or sell\<close> belongs to the test \<open>self.quantity is not None or self.price is not None\<close>
  inside the branch of the cash kinds, and the normalization of lines 149 to 176 stands in
  that branch as well; for the kinds \<open>buy\<close> and \<open>sell\<close> the method ends after the
  timestamps.  The argument holds the fields the generated \<open>__init__\<close> assigned; the
  result is the constructed entry, or the exception and no entry.
\<close>

definition Transaction_post_init :: "transaction \<Rightarrow> error + transaction" where
  "Transaction_post_init self0 =
     (if tx_kind self0 \<notin> set ALLOWED_KINDS then Inl InvalidTransactionError
      else
        (let self1 = (if dt_tzinfo (tx_created_at self0) = None
                      then self0\<lparr>tx_created_at := replace_tzinfo_utc (tx_created_at self0)\<rparr>
                      else self0);
             self2 = (case tx_executed_at self1 of
                        None \<Rightarrow> self1
                      | Some ex \<Rightarrow>
                          if dt_tzinfo ex = None
                          then self1\<lparr>tx_executed_at := Some (replace_tzinfo_utc ex)\<rparr>
                          else self1)
         in if tx_kind self2 \<in> {''deposit'', ''withdrawal''}
            then
              if \<not> truthy (tx_account_id self2) then Inl InvalidTransactionError
              else
                (case transaction_to_decimal (tx_amount self2) of
                   Inl e \<Rightarrow> Inl e
                 | Inr amt \<Rightarrow>
                     if dec_le amt dec_zero then Inl InvalidTransactionError
                     else
                       (let self3 = self2\<lparr>tx_amount := PyNum amt\<rparr>
                        in if tx_quantity self3 \<noteq> PyNone \<or> tx_price self3 \<noteq> PyNone
                           then Inl InvalidTransactionError
                           else if \<not> truthy (tx_account_id self3)
                           then Inl InvalidTransactionError
                           else if tx_quantity self3 = PyNone then Inl InvalidTransactionError
                           else if tx_price self3 = PyNone then Inl InvalidTransactionError
                           else normalize_trade self3))
            else Inr self2))"

text \<open>
  The class body of \<open>Transaction\<close> ends with \<open>__post_init__\<close>: line 178 of the file is
  one comment that holds the text of the factories \<open>deposit\<close>, \<open>withdrawal\<close> and
  \<open>trade\<close> and of \<open>to_dict\<close>, so the class binds none of these names and
  \<open>Transaction.trade(...)\<close> raises AttributeError before any argument is looked at.
\<close>

definition Transaction_trade ::
  "string option \<Rightarrow> string \<Rightarrow> pyobj \<Rightarrow> pyobj \<Rightarrow> pyobj \<Rightarrow> string option
     \<Rightarrow> error + transaction" where
  "Transaction_trade account_id side quantity price profit_loss transaction_id =
     Inl AttributeError"

section \<open>Strings and dictionaries\<close>

text \<open>
  \<open>str.strip()\<close> and \<open>str.upper()\<close> on ASCII text.  A \<open>dict\<close> is the list of its items
  in insertion order, with one item per key.
\<close>

definition is_space :: "char \<Rightarrow> bool" where
  "is_space c \<longleftrightarrow>
     c \<in> set [CHR '' '', CHR 0x09, CHR 0x0A, CHR 0x0B, CHR 0x0C, CHR 0x0D,
              CHR 0x1C, CHR 0x1D, CHR 0x1E, CHR 0x1F]"

definition strip :: "string \<Rightarrow> string" where
  "strip s = rev (dropWhile is_space (rev (dropWhile is_space s)))"

definition upper_char :: "char \<Rightarrow> char" where
  "upper_char c =
     (let n = (of_char c :: nat) in if 97 \<le> n \<and> n \<le> 122 then char_of (n - 32) else c)"

definition upper :: "string \<Rightarrow> string" where
  "upper s = map upper_char s"

definition dict_get :: "('k \<times> 'v) list \<Rightarrow> 'k \<Rightarrow> 'v option" where
  "dict_get d k = map_of d k"

fun dict_set :: "('k \<times> 'v) list \<Rightarrow> 'k \<Rightarrow> 'v \<Rightarrow> ('k \<times> 'v) list" where
  "dict_set [] k v = [(k, v)]"
| "dict_set (kv # d) k v = (if fst kv = k then (k, v) # d else kv # dict_set d k v)"

definition dict_del :: "('k \<times> 'v) list \<Rightarrow> 'k \<Rightarrow> ('k \<times> 'v) list" where
  "dict_del d k = filter (\<lambda>kv. fst kv \<noteq> k) d"

definition dict_values :: "('k \<times> 'v) list \<Rightarrow> 'v list" where
  "dict_values d = map snd d"

section \<open>Holding\<close>

text \<open>
  The attributes of a \<open>Holding\<close>, as \<open>portfolio.py\<close> constructs one (line 108) and
  \<open>valuation.py\<close> reads it.
\<close>

record holding =
  hd_symbol :: string
  hd_quantity :: decimal
  hd_average_cost :: decimal
  hd_currency :: string

text \<open>
  Modelled from the spec: \<open>holding.py\<close>, the module of class \<open>Holding\<close> with its
  constructor and its methods \<open>buy\<close> and \<open>sell\<close>, is not among the sources; only its
  caller \<open>portfolio.py\<close> and its tests are.  The definitions below follow sections 3, 4.1
  and 4.3 of the spec: amounts are arbitrary-precision decimals, \<open>toMoney\<close> and
  \<open>toQuantity\<close> quantize to 2 and 8 fractional digits, rounding half up, and fail with
  InvalidAmount on an input that is not a number.  \<open>dec_val\<close> is the exact value of a
  decimal and \<open>to_scale\<close> the quantization of an exact value.
\<close>

definition dec_val :: "decimal \<Rightarrow> rat" where
  "dec_val x =
     (if 0 \<le> expo x then of_int (coeff x) * 10 ^ nat (expo x)
      else of_int (coeff x) / 10 ^ nat (- expo x))"

definition round_half_up_rat :: "rat \<Rightarrow> int" where
  "round_half_up_rat s = (if s < 0 then - \<lfloor>- s + 1 / 2\<rfloor> else \<lfloor>s + 1 / 2\<rfloor>)"

definition to_scale :: "int \<Rightarrow> rat \<Rightarrow> decimal" where
  "to_scale q r =
     Decimal (round_half_up_rat (if 0 \<le> q then r / 10 ^ nat q else r * 10 ^ nat (- q))) q"

definition toMoney :: "pyobj \<Rightarrow> error + decimal" where
  "toMoney v =
     (case py_Decimal v of
        None \<Rightarrow> Inl InvalidAmount
      | Some d \<Rightarrow> Inr (to_scale CENT (dec_val d)))"

definition toQuantity :: "pyobj \<Rightarrow> error + decimal" where
  "toQuantity v =
     (case py_Decimal v of
        None \<Rightarrow> Inl InvalidAmount
      | Some d \<Rightarrow> Inr (to_scale QTY (dec_val d)))"

text \<open>
  Modelled from the spec: the constructor of \<open>Holding\<close> (absent with \<open>holding.py\<close>).
  Section 3 gives the fields and their quantization; that an empty symbol is refused with
  ValueError is what \<open>test_holding.py\<close> expects.
\<close>

definition Holding_init :: "string \<Rightarrow> pyobj \<Rightarrow> pyobj \<Rightarrow> string \<Rightarrow> error + holding" where
  "Holding_init symbol quantity average_cost currency =
     (if symbol = [] then Inl ValueError
      else
        (case toQuantity quantity of
           Inl e \<Rightarrow> Inl e
         | Inr qty \<Rightarrow>
             (case toMoney average_cost of
                Inl e \<Rightarrow> Inl e
              | Inr avg \<Rightarrow>
                  Inr \<lparr>hd_symbol = symbol, hd_quantity = qty, hd_average_cost = avg,
                       hd_currency = currency\<rparr>)))"

text \<open>
  Modelled from the spec: \<open>Holding.buy\<close> (absent with \<open>holding.py\<close>), section 4.3:
  the quantity must be positive (else InvalidQuantity), the price must be positive (else
  InvalidPrice); the new average cost is
  \<open>(old_qty * old_avg + qty * price) / (old_qty + qty)\<close> quantized to cents, rounded half
  up; the new quantity is \<open>old_qty + qty\<close>; the call returns the new quantity.  A call
  that raises leaves the holding as it was (section 7).
\<close>

definition Holding_buy :: "holding \<Rightarrow> pyobj \<Rightarrow> pyobj \<Rightarrow> (error + decimal) \<times> holding" where
  "Holding_buy self quantity price =
     (case toQuantity quantity of
        Inl e \<Rightarrow> (Inl e, self)
      | Inr qty \<Rightarrow>
          if dec_val qty \<le> 0 then (Inl InvalidQuantityError, self)
          else
            (case toMoney price of
               Inl e \<Rightarrow> (Inl e, self)
             | Inr pr \<Rightarrow>
                 if dec_val pr \<le> 0 then (Inl InvalidPriceError, self)
                 else
                   (let old_qty = dec_val (hd_quantity self);
                        old_avg = dec_val (hd_average_cost self);
                        new_avg = to_scale CENT
                          ((old_qty * old_avg + dec_val qty * dec_val pr)
                             / (old_qty + dec_val qty));
                        new_qty = to_scale QTY (old_qty + dec_val qty)
                    in (Inr new_qty,
                        self\<lparr>hd_quantity := new_qty, hd_average_cost := new_avg\<rparr>))))"

text \<open>
  Modelled from the spec: \<open>Holding.sell\<close> (absent with \<open>holding.py\<close>), section 4.3:
  quantity and price must be positive, the quantity at most the held one (else
  InsufficientQuantity); the realized profit or loss is \<open>(price - average_cost) * quantity\<close>
  quantized to cents; the quantity is reduced; the average cost is kept while a quantity
  remains and reset to zero when none does; the call returns the realized profit or loss.
\<close>

definition Holding_sell :: "holding \<Rightarrow> pyobj \<Rightarrow> pyobj \<Rightarrow> (error + decimal) \<times> holding" where
  "Holding_sell self quantity price =
     (case toQuantity quantity of
        Inl e \<Rightarrow> (Inl e, self)
      | Inr qty \<Rightarrow>
          if dec_val qty \<le> 0 then (Inl InvalidQuantityError, self)
          else
            (case toMoney price of
               Inl e \<Rightarrow> (Inl e, self)
             | Inr pr \<Rightarrow>
                 if dec_val pr \<le> 0 then (Inl InvalidPriceError, self)
                 else if dec_val (hd_quantity self) < dec_val qty
                 then (Inl InsufficientQuantityError, self)
                 else
                   (let pnl = to_scale CENT
                          ((dec_val pr - dec_val (hd_average_cost self)) * dec_val qty);
                        new_qty = to_scale QTY (dec_val (hd_quantity self) - dec_val qty);
                        new_avg = (if dec_val new_qty = 0 then Decimal 0 CENT
                                   else hd_average_cost self)
                    in (Inr pnl,
                        self\<lparr>hd_quantity := new_qty, hd_average_cost := new_avg\<rparr>))))"

section \<open>portfolio.py\<close>

text \<open>
  Holdings are mutable objects that a portfolio, the lists it hands out and its callers
  share, so they live in a heap and are named by reference; a reference is the position of
  the object in the heap, and allocation appends.  The lists that \<open>list_holdings\<close>
  builds are objects of the heap as well.  Python has no dangling reference: a reference
  held by a portfolio or a list is below the length of its heap.
\<close>

type_synonym ref = nat

record heap =
  hp_holdings :: "holding list"
  hp_lists :: "ref list list"

definition heap_holding :: "heap \<Rightarrow> ref \<Rightarrow> holding" where
  "heap_holding h r = hp_holdings h ! r"

definition heap_set_holding :: "heap \<Rightarrow> ref \<Rightarrow> holding \<Rightarrow> heap" where
  "heap_set_holding h r v = h\<lparr>hp_holdings := (hp_holdings h)[r := v]\<rparr>"

definition heap_new_holding :: "heap \<Rightarrow> holding \<Rightarrow> ref \<times> heap" where
  "heap_new_holding h v = (length (hp_holdings h), h\<lparr>hp_holdings := hp_holdings h @ [v]\<rparr>)"

definition heap_new_list :: "heap \<Rightarrow> ref list \<Rightarrow> ref \<times> heap" where
  "heap_new_list h xs = (length (hp_lists h), h\<lparr>hp_lists := hp_lists h @ [xs]\<rparr>)"

definition heap_set_list :: "heap \<Rightarrow> ref \<Rightarrow> ref list \<Rightarrow> heap" where
  "heap_set_list h r xs = h\<lparr>hp_lists := (hp_lists h)[r := xs]\<rparr>"

record portfolio =
  pf_portfolio_id :: string
  pf_owner :: string
  pf_account_id :: "string option"
  pf_currency :: string
  pf_holdings :: "(string \<times> ref) list"

definition Portfolio_init ::
  "string \<Rightarrow> string \<Rightarrow> string option \<Rightarrow> string \<Rightarrow> error + portfolio" where
  "Portfolio_init portfolio_id owner account_id currency =
     (if portfolio_id = [] then Inl ValueError
      else if owner = [] then Inl ValueError
      else Inr \<lparr>pf_portfolio_id = portfolio_id, pf_owner = owner, pf_account_id = account_id,
                pf_currency = currency, pf_holdings = []\<rparr>)"

definition normalize_symbol :: "string \<Rightarrow> error + string" where
  "normalize_symbol symbol = (if symbol = [] then Inl ValueError else Inr (strip symbol))"

definition add_holding :: "heap \<times> portfolio \<Rightarrow> ref \<Rightarrow> (error + unit) \<times> heap \<times> portfolio" where
  "add_holding s r =
     (case normalize_symbol (hd_symbol (heap_holding (fst s) r)) of
        Inl e \<Rightarrow> (Inl e, s)
      | Inr symb \<Rightarrow>
          (Inr (), fst s, (snd s)\<lparr>pf_holdings := dict_set (pf_holdings (snd s)) symb r\<rparr>))"

definition get_holding :: "portfolio \<Rightarrow> string \<Rightarrow> error + ref option" where
  "get_holding self symbol =
     (case normalize_symbol symbol of
        Inl e \<Rightarrow> Inl e
      | Inr symb \<Rightarrow> Inr (dict_get (pf_holdings self) symb))"

text \<open>
  \<open>list_holdings\<close> returns \<open>list(self._holdings.values())\<close>: a new list object whose
  elements are the references the dictionary holds.
\<close>

definition list_holdings :: "heap \<times> portfolio \<Rightarrow> ref \<times> heap" where
  "list_holdings s = heap_new_list (fst s) (dict_values (pf_holdings (snd s)))"

definition remove_holding :: "portfolio \<Rightarrow> string \<Rightarrow> (error + unit) \<times> portfolio" where
  "remove_holding self symbol =
     (case normalize_symbol symbol of
        Inl e \<Rightarrow> (Inl e, self)
      | Inr symb \<Rightarrow>
          if dict_get (pf_holdings self) symb \<noteq> None
          then (Inr (), self\<lparr>pf_holdings := dict_del (pf_holdings self) symb\<rparr>)
          else (Inl KeyError, self))"

text \<open>
  \<open>Portfolio.buy\<close> and \<open>Portfolio.sell\<close>.  The constructor and the methods of
  \<open>Holding\<close> they call are parameters (\<open>hinit\<close>, \<open>hbuy\<close>, \<open>hsell\<close>): a method is given the
  holding object and returns the call's outcome and the object as the call leaves it.
  The outcome of \<open>buy\<close> is the reference of the holding bought.
\<close>

definition Portfolio_buy ::
  "(string \<Rightarrow> pyobj \<Rightarrow> pyobj \<Rightarrow> string \<Rightarrow> error + holding)
     \<Rightarrow> (holding \<Rightarrow> pyobj \<Rightarrow> pyobj \<Rightarrow> (error + decimal) \<times> holding)
     \<Rightarrow> heap \<times> portfolio \<Rightarrow> string \<Rightarrow> pyobj \<Rightarrow> pyobj
     \<Rightarrow> (error + ref) \<times> heap \<times> portfolio" where
  "Portfolio_buy hinit hbuy s symbol quantity price =
     (case normalize_symbol symbol of
        Inl e \<Rightarrow> (Inl e, s)
      | Inr symb \<Rightarrow>
          (case (case dict_get (pf_holdings (snd s)) symb of
                   Some r \<Rightarrow> Inr (r, s)
                 | None \<Rightarrow>
                     (case hinit symb (PyNum (Decimal 0 0)) (PyNum (Decimal 0 (- 2)))
                             (pf_currency (snd s)) of
                        Inl e \<Rightarrow> Inl e
                      | Inr new \<Rightarrow>
                          (let (r, h1) = heap_new_holding (fst s) new
                           in Inr (r, h1,
                                   (snd s)\<lparr>pf_holdings :=
                                             dict_set (pf_holdings (snd s)) symb r\<rparr>)))) of
             Inl e \<Rightarrow> (Inl e, s)
           | Inr (r, h1, p1) \<Rightarrow>
               (case hbuy (heap_holding h1 r) quantity price of
                  (Inl e, hd1) \<Rightarrow> (Inl e, heap_set_holding h1 r hd1, p1)
                | (Inr q, hd1) \<Rightarrow> (Inr r, heap_set_holding h1 r hd1, p1))))"

definition Portfolio_sell ::
  "(holding \<Rightarrow> pyobj \<Rightarrow> pyobj \<Rightarrow> (error + decimal) \<times> holding)
     \<Rightarrow> heap \<times> portfolio \<Rightarrow> string \<Rightarrow> pyobj \<Rightarrow> pyobj
     \<Rightarrow> (error + decimal) \<times> heap \<times> portfolio" where
  "Portfolio_sell hsell s symbol quantity price =
     (case normalize_symbol symbol of
        Inl e \<Rightarrow> (Inl e, s)
      | Inr symb \<Rightarrow>
          (case dict_get (pf_holdings (snd s)) symb of
             None \<Rightarrow> (Inl PortfolioNotFoundError, s)
           | Some r \<Rightarrow>
               (case hsell (heap_holding (fst s) r) quantity price of
                  (Inl e, hd1) \<Rightarrow> (Inl e, heap_set_holding (fst s) r hd1, snd s)
                | (Inr pnl, hd1) \<Rightarrow>
                    if dec_eq (hd_quantity hd1) (Decimal 0 (- 8))
                    then (Inr pnl, heap_set_holding (fst s) r hd1,
                          (snd s)\<lparr>pf_holdings := dict_del (pf_holdings (snd s)) symb\<rparr>)
                    else (Inr pnl, heap_set_holding (fst s) r hd1, snd s))))"

text \<open>
  \<open>Portfolio.market_value\<close>.  The price provider is \<open>None\<close>, a callable or a mapping;
  \<open>Holding.market_value\<close> is the parameter \<open>hmv\<close>.  An exception of the callable or of
  \<open>hmv\<close> passes through; a key the mapping lacks gives KeyError.
\<close>

datatype price_provider =
    NoProvider
  | CallableProvider "string \<Rightarrow> error + pyobj"
  | MappingProvider "(string \<times> pyobj) list"

fun market_value_loop ::
  "(holding \<Rightarrow> pyobj \<Rightarrow> error + decimal) \<Rightarrow> price_provider \<Rightarrow> heap
     \<Rightarrow> (string \<times> ref) list \<Rightarrow> decimal \<Rightarrow> error + decimal" where
  "market_value_loop hmv pp h [] total_mv = Inr total_mv"
| "market_value_loop hmv pp h (item # items) total_mv =
     (case (case pp of
              NoProvider \<Rightarrow> Inl ValueError
            | CallableProvider f \<Rightarrow> f (fst item)
            | MappingProvider m \<Rightarrow>
                (case dict_get m (fst item) of None \<Rightarrow> Inl KeyError | Some v \<Rightarrow> Inr v)) of
        Inl e \<Rightarrow> Inl e
      | Inr price \<Rightarrow>
          (case hmv (heap_holding h (snd item)) price of
             Inl e \<Rightarrow> Inl e
           | Inr mv \<Rightarrow> market_value_loop hmv pp h items (dec_add total_mv mv)))"

definition Portfolio_market_value ::
  "(holding \<Rightarrow> pyobj \<Rightarrow> error + decimal) \<Rightarrow> heap \<times> portfolio \<Rightarrow> price_provider
     \<Rightarrow> error + decimal" where
  "Portfolio_market_value hmv s pp =
     (case pp of
        NoProvider \<Rightarrow> Inl ValueError
      | _ \<Rightarrow>
          (case market_value_loop hmv pp (fst s) (pf_holdings (snd s)) (Decimal 0 (- 2)) of
             Inl e \<Rightarrow> Inl e
           | Inr total_mv \<Rightarrow> quantize CENT total_mv))"

text \<open>
  What a portfolio holds: each symbol of its dictionary with the holding object found
  under it.
\<close>

definition holdings_state :: "heap \<times> portfolio \<Rightarrow> (string \<times> holding) list" where
  "holdings_state s = map (\<lambda>kv. (fst kv, heap_holding (fst s) (snd kv))) (pf_holdings (snd s))"

section \<open>pricing.py\<close>

text \<open>
  \<open>PriceService.get_share_price\<close>, read from the text of \<open>pricing.py\<close> (the file
  wraps its whole text in one string literal): a symbol that is not a non-empty string, or
  not one of the three of \<open>_PRICES\<close> once upper-cased, raises UnsupportedSymbolError.
\<close>

definition PRICES :: "(string \<times> decimal) list" where
  "PRICES = [(''AAPL'', Decimal 15000 (- 2)), (''TSLA'', Decimal 72050 (- 2)),
             (''GOOGL'', Decimal 280075 (- 2))]"

definition get_share_price :: "string option \<Rightarrow> error + pyobj" where
  "get_share_price symbol =
     (case symbol of
        None \<Rightarrow> Inl Pricing_UnsupportedSymbolError
      | Some s \<Rightarrow>
          if s = [] then Inl Pricing_UnsupportedSymbolError
          else
            (case dict_get PRICES (upper s) of
               None \<Rightarrow> Inl Pricing_UnsupportedSymbolError
             | Some price \<Rightarrow> Inr (PyNum price)))"

section \<open>valuation.py\<close>

text \<open>
  A holding as \<open>ValuationEngine\<close> reads it, by attribute or by key: a symbol (\<open>None\<close>
  when it is missing or not a string), a quantity and an average cost of any type.  A
  \<open>Holding\<close> object has a quantity and an average cost that are Decimals.
\<close>

record holding_like =
  hl_symbol :: "string option"
  hl_quantity :: pyobj
  hl_average_cost :: pyobj

definition holding_view :: "holding \<Rightarrow> holding_like" where
  "holding_view h =
     \<lparr>hl_symbol = Some (hd_symbol h), hl_quantity = PyNum (hd_quantity h),
      hl_average_cost = PyNum (hd_average_cost h)\<rparr>"

definition is_holding :: "holding_like \<Rightarrow> bool" where
  "is_holding h \<longleftrightarrow> py_Decimal (hl_quantity h) \<noteq> None \<and> py_Decimal (hl_average_cost h) \<noteq> None"

text \<open>
  The engine's \<open>price_service\<close> is \<open>None\<close> or an object whose \<open>get_share_price\<close>
  returns a price or raises.
\<close>

type_synonym price_service = "(string option \<Rightarrow> error + pyobj) option"

definition valuation_to_decimal_cents :: "pyobj \<Rightarrow> error + decimal" where
  "valuation_to_decimal_cents v =
     (case py_Decimal v of
        None \<Rightarrow> Inl ValuationError
      | Some dec \<Rightarrow> quantize CENT dec)"

definition get_price_for_symbol :: "price_service \<Rightarrow> string option \<Rightarrow> error + decimal" where
  "get_price_for_symbol ps symbol =
     (case ps of
        None \<Rightarrow> Inl ValuationError
      | Some svc \<Rightarrow>
          (case svc symbol of
             Inl e \<Rightarrow> Inl ValuationError
           | Inr price \<Rightarrow> valuation_to_decimal_cents price))"

definition holding_market_value :: "price_service \<Rightarrow> holding_like \<Rightarrow> pyobj \<Rightarrow> error + decimal" where
  "holding_market_value ps holding price =
     (if \<not> truthy (hl_symbol holding) then Inl ValuationError
      else if hl_quantity holding = PyNone then Inl ValuationError
      else
        (case (if price = PyNone then get_price_for_symbol ps (hl_symbol holding)
               else valuation_to_decimal_cents price) of
           Inl e \<Rightarrow> Inl e
         | Inr price_dec \<Rightarrow>
             (case py_Decimal (hl_quantity holding) of
                None \<Rightarrow> Inl ValuationError
              | Some qty_dec \<Rightarrow> quantize CENT (dec_mul qty_dec price_dec))))"

definition holding_unrealized_pl :: "price_service \<Rightarrow> holding_like \<Rightarrow> pyobj \<Rightarrow> error + decimal" where
  "holding_unrealized_pl ps holding price =
     (if \<not> truthy (hl_symbol holding) then Inl ValuationError
      else if hl_quantity holding = PyNone then Inl ValuationError
      else if hl_average_cost holding = PyNone then Inl ValuationError
      else
        (case (if price = PyNone then get_price_for_symbol ps (hl_symbol holding)
               else valuation_to_decimal_cents price) of
           Inl e \<Rightarrow> Inl e
         | Inr price_dec \<Rightarrow>
             (case py_Decimal (hl_quantity holding) of
                None \<Rightarrow> Inl ValuationError
              | Some qty_dec \<Rightarrow>
                  (case py_Decimal (hl_average_cost holding) of
                     None \<Rightarrow> Inl ValuationError
                   | Some avg_dec \<Rightarrow>
                       quantize CENT (dec_mul (dec_sub price_dec avg_dec) qty_dec)))))"

text \<open>
  \<open>portfolio_breakdown\<close>.  \<open>price_overrides.get(sym)\<close> is \<open>None\<close> for a symbol without
  an override.  The \<open>try\<close> around the price catches ValuationError only, and the price is
  then \<open>None\<close>.  A row holds the decimals that \<open>format(_, 'f')\<close> prints, or \<open>None\<close>.
\<close>

definition price_override :: "(string \<times> pyobj) list \<Rightarrow> string option \<Rightarrow> pyobj" where
  "price_override price_overrides symbol =
     (case symbol of
        None \<Rightarrow> PyNone
      | Some s \<Rightarrow> (case dict_get price_overrides s of None \<Rightarrow> PyNone | Some v \<Rightarrow> v))"

definition resolve_price ::
  "price_service \<Rightarrow> (string \<times> pyobj) list \<Rightarrow> holding_like \<Rightarrow> error + decimal option" where
  "resolve_price ps price_overrides h =
     (let override = price_override price_overrides (hl_symbol h)
      in case (if override = PyNone then get_price_for_symbol ps (hl_symbol h)
               else valuation_to_decimal_cents override) of
           Inl e \<Rightarrow> if e = ValuationError then Inr None else Inl e
         | Inr price \<Rightarrow> Inr (Some price))"

record breakdown_row =
  row_symbol :: "string option"
  row_quantity :: decimal
  row_average_cost :: "decimal option"
  row_market_price :: "decimal option"
  row_market_value :: "decimal option"
  row_unrealized_pl :: "decimal option"

record breakdown =
  bd_holdings :: "breakdown_row list"
  bd_total_market_value :: decimal
  bd_total_unrealized_pl :: decimal

text \<open>
  One pass of the loop of \<open>portfolio_breakdown\<close> up to \<open>rows.append\<close>: the price, the
  two values when there is a price, and the row.
\<close>

definition breakdown_row_of ::
  "price_service \<Rightarrow> (string \<times> pyobj) list \<Rightarrow> holding_like \<Rightarrow> error + breakdown_row" where
  "breakdown_row_of ps price_overrides h =
     (case resolve_price ps price_overrides h of
        Inl e \<Rightarrow> Inl e
      | Inr price \<Rightarrow>
          (case (case price of
                   None \<Rightarrow> Inr (None, None)
                 | Some pr \<Rightarrow>
                     (case holding_market_value ps h (PyNum pr) of
                        Inl e \<Rightarrow> Inl e
                      | Inr mv \<Rightarrow>
                          (case holding_unrealized_pl ps h (PyNum pr) of
                             Inl e \<Rightarrow> Inl e
                           | Inr upl \<Rightarrow> Inr (Some mv, Some upl)))) of
             Inl e \<Rightarrow> Inl e
           | Inr (mv, upl) \<Rightarrow>
               (case py_Decimal (hl_quantity h) of
                  None \<Rightarrow> Inl DecimalConversionError
                | Some qty \<Rightarrow>
                    (case (if hl_average_cost h = PyNone then Inr None
                           else (case py_Decimal (hl_average_cost h) of
                                   None \<Rightarrow> Inl DecimalConversionError
                                 | Some avg \<Rightarrow> Inr (Some avg))) of
                       Inl e \<Rightarrow> Inl e
                     | Inr avg \<Rightarrow>
                         Inr \<lparr>row_symbol = hl_symbol h, row_quantity = qty,
                              row_average_cost = avg, row_market_price = price,
                              row_market_value = mv, row_unrealized_pl = upl\<rparr>))))"

definition add_if_present :: "decimal \<Rightarrow> decimal option \<Rightarrow> decimal" where
  "add_if_present tot v = (case v of None \<Rightarrow> tot | Some x \<Rightarrow> dec_add tot x)"

fun breakdown_loop ::
  "price_service \<Rightarrow> (string \<times> pyobj) list \<Rightarrow> holding_like list
     \<Rightarrow> breakdown_row list \<times> decimal \<times> decimal
     \<Rightarrow> error + breakdown_row list \<times> decimal \<times> decimal" where
  "breakdown_loop ps ov [] acc = Inr acc"
| "breakdown_loop ps ov (h # hs) (rows, total_mv, total_upl) =
     (case breakdown_row_of ps ov h of
        Inl e \<Rightarrow> Inl e
      | Inr row \<Rightarrow>
          breakdown_loop ps ov hs
            (rows @ [row], add_if_present total_mv (row_market_value row),
             add_if_present total_upl (row_unrealized_pl row)))"

definition portfolio_breakdown ::
  "price_service \<Rightarrow> holding_like list \<Rightarrow> (string \<times> pyobj) list \<Rightarrow> error + breakdown" where
  "portfolio_breakdown ps holdings price_overrides =
     (case breakdown_loop ps price_overrides holdings
             ([], Decimal 0 (- 2), Decimal 0 (- 2)) of
        Inl e \<Rightarrow> Inl e
      | Inr (rows, total_mv, total_upl) \<Rightarrow>
          (case quantize CENT total_mv of
             Inl e \<Rightarrow> Inl e
           | Inr tmv \<Rightarrow>
               (case quantize CENT total_upl of
                  Inl e \<Rightarrow> Inl e
                | Inr tupl \<Rightarrow>
                    Inr \<lparr>bd_holdings = rows, bd_total_market_value = tmv,
                         bd_total_unrealized_pl = tupl\<rparr>)))"

text \<open>The holdings for which \<open>portfolio_breakdown\<close> finds a price (or fails to look for one).\<close>

definition price_resolves :: "price_service \<Rightarrow> (string \<times> pyobj) list \<Rightarrow> holding_like \<Rightarrow> bool" where
  "price_resolves ps ov h \<longleftrightarrow> resolve_price ps ov h \<noteq> Inr None"

section \<open>trading.py\<close>

text \<open>
  \<open>OperationValidator.validate_symbol\<close>; \<open>supported\<close> is the validator's set of
  upper-cased symbols, or \<open>None\<close> when it is unrestricted.
\<close>

definition validate_symbol :: "string list option \<Rightarrow> string \<Rightarrow> error + string" where
  "validate_symbol supported symbol =
     (if symbol = [] then Inl Validators_UnsupportedSymbolError
      else
        (let up = upper symbol
         in case supported of
              None \<Rightarrow> Inr up
            | Some allowed \<Rightarrow>
                if up \<notin> set allowed then Inl Validators_UnsupportedSymbolError else Inr up))"

text \<open>
  What a \<open>TradingEngine\<close> works on: the accounts of its account service, the portfolios
  and the transactions of its repositories (the dictionaries of \<open>InMemoryStorage\<close>), and
  the heap of the holdings.  Accounts and portfolios are objects that their store hands out
  and the engine mutates in place: the model writes an object back under its key as soon as
  it is mutated.
\<close>

record trading_engine =
  te_accounts :: "(string \<times> account) list"
  te_portfolios :: "(string \<times> portfolio) list"
  te_transactions :: "(string \<times> transaction) list"
  te_heap :: heap

text \<open>
  The engine's collaborators that are parameters of the model: the factory
  \<open>Transaction.trade\<close> (account, side, quantity, price, profit or loss, transaction id),
  the validator's supported symbols, the price service, and the transaction repository's
  \<open>save\<close>, which a test replaces by one that raises.
\<close>

record engine_deps =
  dep_trade ::
    "string option \<Rightarrow> string \<Rightarrow> pyobj \<Rightarrow> pyobj \<Rightarrow> pyobj \<Rightarrow> string option \<Rightarrow> error + transaction"
  dep_supported :: "string list option"
  dep_get_share_price :: "string option \<Rightarrow> error + pyobj"
  dep_save_transaction :: "trading_engine \<Rightarrow> transaction \<Rightarrow> error + trading_engine"

text \<open>
  \<open>TransactionRepository.save\<close> over \<open>InMemoryStorage.save_transaction\<close>: an entry
  without an id is stored under a generated one (\<open>uuid\<close>); attaching the id to the frozen
  entry fails silently.
\<close>

definition save_transaction :: "string \<Rightarrow> trading_engine \<Rightarrow> transaction \<Rightarrow> error + trading_engine" where
  "save_transaction uuid te tx =
     (let tid = (if tx_transaction_id tx = [] then uuid else tx_transaction_id tx)
      in Inr (te\<lparr>te_transactions := dict_set (te_transactions te) tid tx\<rparr>))"

text \<open>\<open>PortfolioRepository.save\<close> over \<open>InMemoryStorage.save_portfolio\<close>.\<close>

definition save_portfolio :: "trading_engine \<Rightarrow> portfolio \<Rightarrow> error + trading_engine" where
  "save_portfolio te pf =
     (if pf_portfolio_id pf = [] then Inl ValueError
      else Inr (te\<lparr>te_portfolios := dict_set (te_portfolios te) (pf_portfolio_id pf) pf\<rparr>))"

text \<open>
  Modelled from the spec: \<open>account_service.py\<close> (class \<open>AccountService\<close>) is not among
  the sources; \<open>trading.py\<close> calls its \<open>get_account\<close>, \<open>withdraw\<close> and \<open>deposit\<close>.
  Following sections 4.6 and 6 of the spec, the service loads the account by id from its
  repository (an absent id is an error), applies the account's own operation and keeps the
  account.
\<close>

definition svc_get_account :: "trading_engine \<Rightarrow> string \<Rightarrow> error + account" where
  "svc_get_account te account_id =
     (case dict_get (te_accounts te) account_id of
        None \<Rightarrow> Inl AccountNotFoundError
      | Some a \<Rightarrow> Inr a)"

definition svc_withdraw ::
  "trading_engine \<Rightarrow> string \<Rightarrow> pyobj \<Rightarrow> (error + decimal) \<times> trading_engine" where
  "svc_withdraw te account_id amount =
     (case svc_get_account te account_id of
        Inl e \<Rightarrow> (Inl e, te)
      | Inr a \<Rightarrow>
          (case withdraw a amount of
             (res, a1) \<Rightarrow> (res, te\<lparr>te_accounts := dict_set (te_accounts te) account_id a1\<rparr>)))"

definition svc_deposit ::
  "trading_engine \<Rightarrow> string \<Rightarrow> pyobj \<Rightarrow> (error + decimal) \<times> trading_engine" where
  "svc_deposit te account_id amount =
     (case svc_get_account te account_id of
        Inl e \<Rightarrow> (Inl e, te)
      | Inr a \<Rightarrow>
          (case deposit a amount of
             (res, a1) \<Rightarrow> (res, te\<lparr>te_accounts := dict_set (te_accounts te) account_id a1\<rparr>)))"

text \<open>
  \<open>TradingEngine._resolve_price\<close>: any exception of the price service becomes
  TradingError; a supplied price goes through \<open>Decimal(price)\<close>, whose exception is not
  caught.
\<close>

definition resolve_trade_price :: "engine_deps \<Rightarrow> string \<Rightarrow> pyobj \<Rightarrow> bool \<Rightarrow> error + pyobj" where
  "resolve_trade_price deps symbol price use_market_price =
     (if use_market_price
      then (case dep_get_share_price deps (Some symbol) of
              Inl e \<Rightarrow> Inl TradingError
            | Inr v \<Rightarrow> Inr v)
      else if price = PyNone then Inl TradingError
      else (case py_Decimal price of
              None \<Rightarrow> Inl DecimalConversionError
            | Some d \<Rightarrow> Inr (PyNum d)))"

text \<open>
  The \<open>try\<close> block of \<open>buy\<close> that updates the portfolio (lines 143 to 150), with the
  methods of \<open>Holding\<close> as the spec gives them.
\<close>

definition buy_update_portfolio ::
  "trading_engine \<Rightarrow> string \<Rightarrow> string \<Rightarrow> pyobj \<Rightarrow> pyobj \<Rightarrow> (error + unit) \<times> trading_engine" where
  "buy_update_portfolio te portfolio_id norm_symbol quantity resolved_price =
     (case dict_get (te_portfolios te) portfolio_id of
        None \<Rightarrow> (Inl TradingError, te)
      | Some pf \<Rightarrow>
          (case Portfolio_buy Holding_init Holding_buy (te_heap te, pf) norm_symbol quantity
                  resolved_price of
             (res, h1, pf1) \<Rightarrow>
               (let te1 = te\<lparr>te_heap := h1,
                              te_portfolios := dict_set (te_portfolios te) portfolio_id pf1\<rparr>
                in case res of
                     Inl e \<Rightarrow> (Inl e, te1)
                   | Inr r \<Rightarrow>
                       (case save_portfolio te1 pf1 of
                          Inl e \<Rightarrow> (Inl e, te1)
                        | Inr te2 \<Rightarrow> (Inr (), te2)))))"

text \<open>
  The rollback of \<open>buy\<close> after a failed save of the transaction (lines 165 to 175): sell
  the quantity back and save the portfolio, then deposit the amount back, each attempt
  ignoring its own exception.
\<close>

definition buy_rollback ::
  "trading_engine \<Rightarrow> string \<Rightarrow> string \<Rightarrow> string \<Rightarrow> pyobj \<Rightarrow> pyobj \<Rightarrow> pyobj \<Rightarrow> trading_engine" where
  "buy_rollback te account_id portfolio_id norm_symbol quantity resolved_price amount =
     (let te1 =
            (case dict_get (te_portfolios te) portfolio_id of
               None \<Rightarrow> te
             | Some pf \<Rightarrow>
                 (case Portfolio_sell Holding_sell (te_heap te, pf) norm_symbol quantity
                         resolved_price of
                    (res, h1, pf1) \<Rightarrow>
                      (let te0 = te\<lparr>te_heap := h1,
                                     te_portfolios := dict_set (te_portfolios te) portfolio_id pf1\<rparr>
                       in case res of
                            Inl e \<Rightarrow> te0
                          | Inr pnl \<Rightarrow>
                              (case save_portfolio te0 pf1 of
                                 Inl e \<Rightarrow> te0
                               | Inr te2 \<Rightarrow> te2))))
      in snd (svc_deposit te1 account_id amount))"

text \<open>
  \<open>TradingEngine.buy\<close>.  The outcome is the exception raised or the entry returned,
  together with the state the call leaves.
\<close>

definition TradingEngine_buy ::
  "engine_deps \<Rightarrow> trading_engine \<Rightarrow> string \<Rightarrow> string \<Rightarrow> string \<Rightarrow> pyobj \<Rightarrow> pyobj \<Rightarrow> bool
     \<Rightarrow> string option \<Rightarrow> (error + transaction) \<times> trading_engine" where
  "TradingEngine_buy deps te account_id portfolio_id symbol quantity price use_market_price
       transaction_id =
     (case validate_symbol (dep_supported deps) symbol of
        Inl e \<Rightarrow> (Inl TradingError, te)
      | Inr norm_symbol \<Rightarrow>
     (case resolve_trade_price deps norm_symbol price use_market_price of
        Inl e \<Rightarrow> (Inl e, te)
      | Inr resolved_price \<Rightarrow>
     (case dep_trade deps (Some account_id) ''buy'' quantity resolved_price PyNone
             transaction_id of
        Inl e \<Rightarrow> (Inl TradingError, te)
      | Inr tx \<Rightarrow>
     (case svc_get_account te account_id of
        Inl e \<Rightarrow> (Inl TradingError, te)
      | Inr acct \<Rightarrow>
     (case validate_sufficient_funds (PyNum (get_balance acct)) (tx_amount tx) of
        Inl e \<Rightarrow>
          if e = Validators_InsufficientFundsError then (Inl e, te) else (Inl TradingError, te)
      | Inr amt \<Rightarrow>
     (case svc_withdraw te account_id (tx_amount tx) of
        (Inl e, te1) \<Rightarrow> (Inl e, te1)
      | (Inr bal, te1) \<Rightarrow>
     (case buy_update_portfolio te1 portfolio_id norm_symbol quantity resolved_price of
        (Inl e, te2) \<Rightarrow>
          (case svc_deposit te2 account_id (tx_amount tx) of
             (Inl e2, te3) \<Rightarrow> (Inl TradingError, te3)
           | (Inr bal2, te3) \<Rightarrow> (Inl e, te3))
      | (Inr u, te2) \<Rightarrow>
     (case dep_save_transaction deps te2 tx of
        Inl e \<Rightarrow>
          (Inl TradingError,
           buy_rollback te2 account_id portfolio_id norm_symbol quantity resolved_price
             (tx_amount tx))
      | Inr te3 \<Rightarrow> (Inr tx, te3)))))))))"

text \<open>
  What line 178 of \<open>transaction.py\<close> would define, were its text code rather than a
  comment: the factory \<open>trade\<close>.  \<open>now\<close> is the clock's reading and \<open>uuid\<close> the id
  generated when none is given.
\<close>

definition lower_char :: "char \<Rightarrow> char" where
  "lower_char c =
     (let n = (of_char c :: nat) in if 65 \<le> n \<and> n \<le> 90 then char_of (n + 32) else c)"

definition lower :: "string \<Rightarrow> string" where
  "lower s = map lower_char s"

definition Transaction_trade_text ::
  "datetime \<Rightarrow> string \<Rightarrow> string option \<Rightarrow> string \<Rightarrow> pyobj \<Rightarrow> pyobj \<Rightarrow> pyobj \<Rightarrow> string option
     \<Rightarrow> error + transaction" where
  "Transaction_trade_text now uuid account_id side0 quantity price profit_loss transaction_id =
     (let side = lower side0
      in if side \<notin> {''buy'', ''sell''} then Inl InvalidTransactionError
         else
           (let tid = (case transaction_id of None \<Rightarrow> uuid | Some t \<Rightarrow> t)
            in case (if profit_loss \<noteq> PyNone
                     then map_sum id PyNum (transaction_to_decimal profit_loss)
                     else Inr PyNone) of
                 Inl e \<Rightarrow> Inl e
               | Inr pl \<Rightarrow>
                   (case transaction_to_quantity quantity of
                      Inl e \<Rightarrow> Inl e
                    | Inr qty \<Rightarrow>
                        (case transaction_to_decimal price of
                           Inl e \<Rightarrow> Inl e
                         | Inr pr \<Rightarrow>
                             Transaction_post_init
                               \<lparr>tx_transaction_id = tid, tx_kind = side,
                                tx_account_id = account_id, tx_from_account = None,
                                tx_to_account = None, tx_quantity = PyNum qty,
                                tx_price = PyNum pr, tx_amount = PyNum (Decimal 0 (- 2)),
                                tx_profit_loss = pl, tx_created_at = now,
                                tx_executed_at = None, tx_metadata = None\<rparr>))))"

section \<open>Properties: decimal arithmetic\<close>

lemma ndigits_le_iff: "0 < k \<Longrightarrow> ndigits n \<le> k \<longleftrightarrow> n < 10 ^ k"
proof (induction n arbitrary: k rule: ndigits.induct)
  case (1 n)
  show ?case
  proof (cases "n < 10")
    case True
    have "(10::nat) ^ 1 \<le> 10 ^ k" using 1(2) by (intro power_increasing) auto
    with True 1(2) show ?thesis by (subst ndigits.simps) auto
  next
    case False
    show ?thesis
    proof (cases k)
      case 0
      with 1(2) show ?thesis by simp
    next
      case (Suc j)
      show ?thesis
      proof (cases "j = 0")
        case True
        with Suc False show ?thesis by (subst ndigits.simps) auto
      next
        case jpos: False
        have "ndigits (n div 10) \<le> j \<longleftrightarrow> n div 10 < 10 ^ j"
          using 1(1) [OF False, of j] jpos by simp
        moreover have "n div 10 < 10 ^ j \<longleftrightarrow> n < 10 ^ Suc j"
          by (simp add: less_mult_imp_div_less div_less_iff_less_mult mult.commute)
        ultimately show ?thesis using False Suc by (subst ndigits.simps) auto
      qed
    qed
  qed
qed

lemma nat_abs_less: "nat \<bar>c\<bar> < 10 ^ k \<longleftrightarrow> \<bar>c\<bar> < 10 ^ k"
proof -
  have "nat \<bar>c\<bar> < 10 ^ k \<longleftrightarrow> int (nat \<bar>c\<bar>) < int (10 ^ k)" by (simp only: of_nat_less_iff)
  then show ?thesis by simp
qed

lemma ctx_fix_small: "\<bar>c\<bar> < 10 ^ PREC \<Longrightarrow> ctx_fix (Decimal c e) = Decimal c e"
proof -
  assume a: "\<bar>c\<bar> < 10 ^ PREC"
  then have "nat \<bar>c\<bar> < 10 ^ PREC" by (simp add: nat_abs_less)
  then have "ndigits (nat \<bar>c\<bar>) \<le> PREC"
    by (subst ndigits_le_iff) (auto simp: PREC_def)
  then show ?thesis by (simp add: ctx_fix_def)
qed

lemma PREC_Suc: "PREC = Suc (PREC - 1)"
  by (simp add: PREC_def)

lemma pow_le_div10: "10 ^ Suc p \<le> (n::nat) \<Longrightarrow> 10 ^ p \<le> n div 10"
  by (simp add: less_eq_div_iff_mult_less_eq mult.commute)

lemma abs_sgn_mult: "c \<noteq> 0 \<Longrightarrow> \<bar>sgn (c::int) * int m\<bar> = int m"
  by (simp add: abs_mult abs_sgn_eq)

lemma le_abs_sgn_mult_pow:
  assumes "c \<noteq> 0" and "p \<le> int m"
  shows "p \<le> \<bar>sgn (c::int) * int m\<bar> * 10 ^ j"
proof -
  have "(1::int) \<le> 10 ^ j" by (rule one_le_power) simp
  then have "int m * 1 \<le> int m * 10 ^ j" by (intro mult_left_mono) auto
  then show ?thesis using assms by (simp add: abs_sgn_mult)
qed

lemma int_pow_le: "10 ^ p \<le> (m::nat) \<Longrightarrow> (10::int) ^ p \<le> int m"
  by (metis of_nat_le_iff of_nat_numeral of_nat_power)

text \<open>
  A coefficient with one digit too many: the rounded result has a larger exponent and still
  \<open>PREC\<close> digits, so it cannot be quantized back to the old exponent.
\<close>

lemma ctx_fix_29:
  assumes lo: "10 ^ PREC \<le> \<bar>c\<bar>" and hi: "\<bar>c\<bar> < 10 ^ Suc PREC"
  shows "\<exists>c' j. ctx_fix (Decimal c e) = Decimal c' (e + 1 + int j) \<and> 10 ^ (PREC - 1) \<le> \<bar>c'\<bar> * 10 ^ j"
proof -
  let ?n = "nat \<bar>c\<bar>"
  have n_lo: "10 ^ PREC \<le> ?n" using lo nat_abs_less [of c PREC] by linarith
  have n_hi: "?n < 10 ^ Suc PREC" using hi by (simp only: nat_abs_less)
  have ppos: "0 < PREC" by (simp add: PREC_def)
  have d1: "\<not> ndigits ?n \<le> PREC" using n_lo ndigits_le_iff [OF ppos, of ?n] by linarith
  have d2: "ndigits ?n \<le> Suc PREC" using n_hi ndigits_le_iff [of "Suc PREC" ?n] by blast
  have k: "ndigits ?n - PREC = 1" using d1 d2 by linarith
  let ?m = "round_half_even ?n 1"
  have n_lo': "10 ^ Suc (PREC - 1) \<le> ?n" using n_lo PREC_Suc by metis
  have m_lo: "10 ^ (PREC - 1) \<le> ?m"
  proof -
    have "10 ^ (PREC - 1) \<le> ?n div 10" using n_lo' by (rule pow_le_div10)
    moreover have "?n div 10 \<le> ?m" by (simp add: round_half_even_def Let_def)
    ultimately show ?thesis by (rule order_trans)
  qed
  have cnz: "c \<noteq> 0"
  proof
    assume "c = 0"
    with lo have "(10::int) ^ PREC \<le> 0" by simp
    moreover have "(0::int) < 10 ^ PREC" by (rule zero_less_power) simp
    ultimately show False by linarith
  qed
  show ?thesis
  proof (cases "10 ^ PREC \<le> ?m")
    case True
    have "ctx_fix (Decimal c e) = Decimal (sgn c * int (?m div 10)) (e + 1 + int 1)"
      using d1 k True by (simp add: ctx_fix_def Let_def)
    moreover have "10 ^ (PREC - 1) \<le> \<bar>sgn c * int (?m div 10)\<bar> * 10 ^ 1"
    proof -
      have "10 ^ Suc (PREC - 1) \<le> ?m" using True PREC_Suc by metis
      then have "10 ^ (PREC - 1) \<le> ?m div 10" by (rule pow_le_div10)
      then have a: "(10::int) ^ (PREC - 1) \<le> int (?m div 10)" by (rule int_pow_le)
      show ?thesis using cnz a by (rule le_abs_sgn_mult_pow)
    qed
    ultimately show ?thesis by blast
  next
    case False
    have "ctx_fix (Decimal c e) = Decimal (sgn c * int ?m) (e + 1 + int 0)"
      using d1 k False by (simp add: ctx_fix_def Let_def)
    moreover have "10 ^ (PREC - 1) \<le> \<bar>sgn c * int ?m\<bar> * 10 ^ 0"
    proof -
      have a: "(10::int) ^ (PREC - 1) \<le> int ?m" using m_lo by (rule int_pow_le)
      show ?thesis using cnz a by (rule le_abs_sgn_mult_pow)
    qed
    ultimately show ?thesis by blast
  qed
qed

lemma quantize_cent_fix:
  assumes "\<bar>c\<bar> < 10 ^ Suc PREC"
  shows "quantize CENT (ctx_fix (Decimal c CENT)) =
         (if \<bar>c\<bar> < 10 ^ PREC then Inr (Decimal c CENT) else Inl DecimalInvalidOperation)"
proof (cases "\<bar>c\<bar> < 10 ^ PREC")
  case True
  then show ?thesis by (simp add: ctx_fix_small quantize_def)
next
  case False
  then have lo: "10 ^ PREC \<le> \<bar>c\<bar>" by simp
  obtain c' j where f: "ctx_fix (Decimal c CENT) = Decimal c' (CENT + 1 + int j)"
    and b: "10 ^ (PREC - 1) \<le> \<bar>c'\<bar> * 10 ^ j"
    using ctx_fix_29 [OF lo assms] by blast
  have "(10::int) ^ PREC = 10 ^ (PREC - 1) * 10" using PREC_Suc by (metis power_Suc2)
  also have "\<dots> \<le> \<bar>c'\<bar> * 10 ^ j * 10" using b by simp
  finally have "10 ^ PREC \<le> \<bar>c' * 10 ^ nat (1 + int j)\<bar>"
    by (simp add: abs_mult nat_add_distrib power_add)
  then show ?thesis using False by (simp add: f quantize_def Let_def)
qed


lemma quantize_Inr:
  "quantize q x = Inr d \<Longrightarrow> expo d = q \<and> \<bar>coeff d\<bar> < 10 ^ PREC"
  by (auto simp: quantize_def Let_def split: if_splits)

lemma dec_align_same: "dec_align (Decimal a e) (Decimal b e) = (a, b)"
  by (simp add: dec_align_def)

lemma dec_le_cent_zero: "dec_le (Decimal c CENT) dec_zero \<longleftrightarrow> c \<le> 0"
  by (simp add: dec_le_def dec_align_def dec_zero_def CENT_def)

lemma dec_less_cent_zero: "dec_less (Decimal c CENT) dec_zero \<longleftrightarrow> c < 0"
  by (simp add: dec_less_def dec_align_def dec_zero_def CENT_def)

lemma dec_le_zero_cent: "dec_le dec_zero (Decimal c CENT) \<longleftrightarrow> 0 \<le> c"
  by (simp add: dec_le_def dec_align_def dec_zero_def CENT_def)

lemma dec_less_same: "dec_less (Decimal a e) (Decimal b e) \<longleftrightarrow> a < b"
  by (simp add: dec_less_def dec_align_same)

lemma quantize_add_cent:
  assumes "\<bar>a\<bar> < 10 ^ PREC" and "\<bar>b\<bar> < 10 ^ PREC"
  shows "quantize CENT (dec_add (Decimal a CENT) (Decimal b CENT)) =
         (if \<bar>a + b\<bar> < 10 ^ PREC then Inr (Decimal (a + b) CENT)
          else Inl DecimalInvalidOperation)"
proof -
  have "\<bar>a + b\<bar> < 10 ^ PREC + 10 ^ PREC" using assms by linarith
  also have "\<dots> \<le> (10::int) ^ Suc PREC" by simp
  finally have "\<bar>a + b\<bar> < 10 ^ Suc PREC" .
  then show ?thesis by (simp add: dec_add_def dec_align_same quantize_cent_fix)
qed

lemma quantize_sub_cent:
  assumes "\<bar>a\<bar> < 10 ^ PREC" and "\<bar>b\<bar> < 10 ^ PREC"
  shows "quantize CENT (dec_sub (Decimal a CENT) (Decimal b CENT)) =
         (if \<bar>a - b\<bar> < 10 ^ PREC then Inr (Decimal (a - b) CENT)
          else Inl DecimalInvalidOperation)"
proof -
  have "\<bar>a - b\<bar> < 10 ^ PREC + 10 ^ PREC" using assms by linarith
  also have "\<dots> \<le> (10::int) ^ Suc PREC" by simp
  finally have "\<bar>a - b\<bar> < 10 ^ Suc PREC" .
  then show ?thesis by (simp add: dec_sub_def dec_align_same quantize_cent_fix)
qed

section \<open>Properties: validators.py\<close>

text \<open>
  C10.  Whenever the amount validates as positive and the balance is a value that
  \<open>Decimal(balance)\<close> cannot convert (None or any other non-numeric object),
  \<open>validate_sufficient_funds\<close> raises InsufficientFundsError, not InvalidAmountError.
\<close>

theorem validate_sufficient_funds_unconvertible_balance:
  assumes "validate_amount amount = Inr amt"
      and "py_Decimal balance = None"
  shows "validate_sufficient_funds balance amount = Inl Validators_InsufficientFundsError"
  using assms by (simp add: validate_sufficient_funds_def to_decimal_cents_def)

theorem validate_sufficient_funds_unconvertible_balance_witness:
  "validate_amount (PyNum (Decimal 5 0)) = Inr (Decimal 500 (- 2))
   \<and> py_Decimal PyOther = None
   \<and> validate_sufficient_funds PyOther (PyNum (Decimal 5 0))
       = Inl Validators_InsufficientFundsError"
proof -
  have a: "validate_amount (PyNum (Decimal 5 0)) = Inr (Decimal 500 (- 2))"
    by (simp add: validate_amount_def to_decimal_cents_def py_Decimal_def quantize_def
        CENT_def PREC_def dec_le_def dec_align_def dec_zero_def)
  have b: "py_Decimal PyOther = None"
    by (simp add: py_Decimal_def)
  show ?thesis
    using a b validate_sufficient_funds_unconvertible_balance [OF a b] by simp
qed

section \<open>Properties: accounts.py\<close>

lemma accounts_to_decimal_Inr:
  "accounts_to_decimal v = Inr d \<Longrightarrow> d = Decimal (cents v) CENT \<and> \<bar>cents v\<bar> < 10 ^ PREC"
  by (cases d) (auto simp: accounts_to_decimal_def cents_def dest: quantize_Inr split: option.splits)

lemma Account_init_ok: "Account_init ow i b cu = Inr a \<Longrightarrow> account_ok a"
  by (auto simp: Account_init_def account_ok_def dec_less_cent_zero
      dest!: accounts_to_decimal_Inr split: sum.splits if_splits)

lemma deposit_Inr:
  assumes "account_ok a" and "deposit a v = (Inr b, a')"
  shows "account_ok a' \<and> acct_balance a' = Decimal (coeff (acct_balance a) + cents v) CENT
         \<and> b = acct_balance a'"
proof -
  obtain c where bal: "acct_balance a = Decimal c CENT" and c: "0 \<le> c" "c < 10 ^ PREC"
    using assms(1) by (cases "acct_balance a") (auto simp: account_ok_def)
  from assms(2) obtain d where d: "accounts_to_decimal v = Inr d"
    by (auto simp: deposit_def split: sum.splits)
  then have dd: "d = Decimal (cents v) CENT" and dc: "\<bar>cents v\<bar> < 10 ^ PREC"
    using accounts_to_decimal_Inr by blast+
  have pos: "0 < cents v" using assms(2) d dd
    by (auto simp: deposit_def dec_le_cent_zero split: if_splits)
  have q: "quantize CENT (dec_add (Decimal c CENT) (Decimal (cents v) CENT)) =
         (if \<bar>c + cents v\<bar> < 10 ^ PREC then Inr (Decimal (c + cents v) CENT)
          else Inl DecimalInvalidOperation)"
    using c dc by (intro quantize_add_cent) auto
  show ?thesis using assms(2) d dd pos q bal c
    by (auto simp: deposit_def dec_le_cent_zero account_ok_def split: if_splits)
qed

lemma withdraw_Inr:
  assumes "account_ok a" and "withdraw a v = (Inr b, a')"
  shows "account_ok a' \<and> acct_balance a' = Decimal (coeff (acct_balance a) - cents v) CENT
         \<and> b = acct_balance a'"
proof -
  obtain c where bal: "acct_balance a = Decimal c CENT" and c: "0 \<le> c" "c < 10 ^ PREC"
    using assms(1) by (cases "acct_balance a") (auto simp: account_ok_def)
  from assms(2) obtain d where d: "accounts_to_decimal v = Inr d"
    by (auto simp: withdraw_def split: sum.splits)
  then have dd: "d = Decimal (cents v) CENT" and dc: "\<bar>cents v\<bar> < 10 ^ PREC"
    using accounts_to_decimal_Inr by blast+
  have pos: "0 < cents v" and le: "cents v \<le> c" using assms(2) d dd bal
    by (auto simp: withdraw_def dec_le_cent_zero dec_less_same split: if_splits)
  have q: "quantize CENT (dec_sub (Decimal c CENT) (Decimal (cents v) CENT)) =
         (if \<bar>c - cents v\<bar> < 10 ^ PREC then Inr (Decimal (c - cents v) CENT)
          else Inl DecimalInvalidOperation)"
    using c dc by (intro quantize_sub_cent) auto
  show ?thesis using assms(2) d dd pos le q bal c
    by (auto simp: withdraw_def dec_le_cent_zero dec_less_same account_ok_def split: if_splits)
qed

lemma run_ops_invariant:
  assumes "account_ok a" and "run_ops a ops = Some tr"
  shows "(\<forall>a' \<in> set tr. account_ok a')
         \<and> acct_balance (last (a # tr)) = Decimal (coeff (acct_balance a) + net_cents ops) CENT"
  using assms
proof (induction ops arbitrary: a tr)
  case Nil
  then show ?case by (cases "acct_balance a") (auto simp: account_ok_def)
next
  case (Cons x xs)
  from Cons.prems(2) obtain b a' tr' where
    step: "apply_op a x = (Inr b, a')" and rest: "run_ops a' xs = Some tr'" and tr: "tr = a' # tr'"
    by (auto split: prod.splits sum.splits)
  have ok': "account_ok a'"
    and bal': "acct_balance a' = Decimal (coeff (acct_balance a) + net_cents [x]) CENT"
    using step Cons.prems(1) deposit_Inr [of a _ b a'] withdraw_Inr [of a _ b a']
    by (cases x; auto simp: apply_op_def)+
  from Cons.IH [OF ok' rest]
  have ih: "(\<forall>a'' \<in> set tr'. account_ok a'')"
    "acct_balance (last (a' # tr')) = Decimal (coeff (acct_balance a') + net_cents xs) CENT"
    by auto
  have "net_cents (x # xs) = net_cents [x] + net_cents xs" by (cases x) auto
  then show ?case using ih ok' bal' tr by auto
qed

lemma deposit_rejects:
  assumes "accounts_to_decimal v = Inr d" and "dec_le d dec_zero"
  shows "deposit a v = (Inl Accounts_InvalidAmountError, a)"
  using assms by (simp add: deposit_def)

lemma withdraw_insufficient:
  assumes "account_ok a" and "accounts_to_decimal v = Inr d" and "dec_less (acct_balance a) d"
  shows "withdraw a v = (Inl Accounts_InsufficientFundsError, a)"
proof -
  obtain c where bal: "acct_balance a = Decimal c CENT" and c: "0 \<le> c"
    using assms(1) by (cases "acct_balance a") (auto simp: account_ok_def)
  have dd: "d = Decimal (cents v) CENT" using assms(2) accounts_to_decimal_Inr by blast
  have "c < cents v" using assms(3) bal dd by (simp add: dec_less_same)
  then have "\<not> dec_le d dec_zero" using c dd by (simp add: dec_le_cent_zero)
  then show ?thesis using assms(2,3) by (simp add: withdraw_def)
qed

lemma account_ok_nonneg: "account_ok a \<Longrightarrow> dec_le dec_zero (acct_balance a)"
  by (cases "acct_balance a") (auto simp: account_ok_def dec_le_zero_cent)

lemma dec_le_zero_iff: "dec_le x dec_zero \<longleftrightarrow> coeff x \<le> 0"
proof -
  have p: "\<not> (10::int) ^ n \<le> 0" for n
    using zero_less_power [of "10::int" n] by linarith
  show ?thesis
    by (simp add: dec_le_def dec_align_def dec_zero_def Let_def mult_le_0_iff p)
qed

lemma round_half_up_nonpos: "c \<le> 0 \<Longrightarrow> round_half_up c k \<le> 0"
proof -
  assume c: "c \<le> 0"
  have d: "(0::int) < 10 ^ k" by simp
  have m: "0 \<le> \<bar>c\<bar> div 10 ^ k" using d by (simp add: pos_imp_zdiv_nonneg_iff)
  define t where "t = (if 10 ^ k \<le> 2 * (\<bar>c\<bar> mod 10 ^ k) then \<bar>c\<bar> div 10 ^ k + 1 else \<bar>c\<bar> div 10 ^ k)"
  have t: "0 \<le> t" using m by (simp add: t_def)
  have s: "sgn c \<le> 0" using c by (simp add: sgn_if)
  have "sgn c * t \<le> 0" using s t by (rule mult_nonpos_nonneg)
  then show ?thesis by (simp add: round_half_up_def Let_def t_def)
qed

lemma quantize_nonpos:
  assumes "coeff x \<le> 0" and "quantize q x = Inr d"
  shows "coeff d \<le> 0"
proof -
  have "coeff x * 10 ^ n \<le> 0" for n using assms(1) by (simp add: mult_le_0_iff)
  then show ?thesis
    using assms round_half_up_nonpos [of "coeff x"]
    by (auto simp: quantize_def Let_def split: if_splits)
qed

lemma deposit_rejects_nonpositive:
  assumes "dec_le x dec_zero" and "accounts_to_decimal (PyNum x) = Inr d"
  shows "deposit a (PyNum x) = (Inl Accounts_InvalidAmountError, a)"
proof -
  have "quantize CENT x = Inr d"
    using assms(2) by (simp add: accounts_to_decimal_def py_Decimal_def)
  then have "coeff d \<le> 0" using assms(1) quantize_nonpos by (simp add: dec_le_zero_iff)
  then have "dec_le d dec_zero" by (simp add: dec_le_zero_iff)
  then show ?thesis using assms(2) by (rule deposit_rejects [rotated])
qed

text \<open>
  C3.  Take an account as its constructor leaves it and any sequence of deposit and withdraw
  calls that all return.  Then the balance is never negative, neither at the start nor after
  any call, and the final balance is the opening balance plus the deposited amounts minus
  the withdrawn ones, each amount counted in cents as \<open>_to_decimal\<close> quantized it.
  At every point of the sequence, deposit raises InvalidAmountError for an amount that is
  not positive, before or after its quantization to cents, and withdraw raises
  InsufficientFundsError for an amount that, in cents, is above the balance; both leave the
  account as it was.
\<close>

theorem account_sequence_balance:
  assumes "Account_init ow i b0 cu = Inr a"
      and "run_ops a ops = Some tr"
  shows "(\<forall>s \<in> set (a # tr).
            dec_le dec_zero (acct_balance s)
          \<and> (\<forall>v d. accounts_to_decimal v = Inr d \<and> dec_le d dec_zero
                 \<longrightarrow> deposit s v = (Inl Accounts_InvalidAmountError, s))
          \<and> (\<forall>x d. accounts_to_decimal (PyNum x) = Inr d \<and> dec_le x dec_zero
                 \<longrightarrow> deposit s (PyNum x) = (Inl Accounts_InvalidAmountError, s))
          \<and> (\<forall>v d. accounts_to_decimal v = Inr d \<and> dec_less (acct_balance s) d
                 \<longrightarrow> withdraw s v = (Inl Accounts_InsufficientFundsError, s)))
       \<and> acct_balance (last (a # tr))
           = Decimal (coeff (acct_balance a) + net_cents ops) CENT"
proof -
  have ok: "account_ok a" using assms(1) by (rule Account_init_ok)
  from run_ops_invariant [OF ok assms(2)]
  have all_ok: "\<forall>s \<in> set (a # tr). account_ok s"
    and fin: "acct_balance (last (a # tr))
                = Decimal (coeff (acct_balance a) + net_cents ops) CENT"
    using ok by auto
  have each: "dec_le dec_zero (acct_balance s)
          \<and> (\<forall>v d. accounts_to_decimal v = Inr d \<and> dec_le d dec_zero
                 \<longrightarrow> deposit s v = (Inl Accounts_InvalidAmountError, s))
          \<and> (\<forall>x d. accounts_to_decimal (PyNum x) = Inr d \<and> dec_le x dec_zero
                 \<longrightarrow> deposit s (PyNum x) = (Inl Accounts_InvalidAmountError, s))
          \<and> (\<forall>v d. accounts_to_decimal v = Inr d \<and> dec_less (acct_balance s) d
                 \<longrightarrow> withdraw s v = (Inl Accounts_InsufficientFundsError, s))"
    if "s \<in> set (a # tr)" for s
  proof -
    have oks: "account_ok s" using all_ok that by blast
    show ?thesis
      using account_ok_nonneg [OF oks] deposit_rejects [of _ _ s]
        deposit_rejects_nonpositive [of _ _ s] withdraw_insufficient [OF oks]
      by blast
  qed
  show ?thesis using each fin by blast
qed

theorem account_sequence_balance_witness:
  "Account_init ''alice'' ''acct-1'' (PyNum (Decimal 0 0)) ''USD''
     = Inr \<lparr>acct_owner = ''alice'', acct_account_id = ''acct-1'',
            acct_balance = Decimal 0 (- 2), acct_currency = ''USD''\<rparr>
   \<and> run_ops \<lparr>acct_owner = ''alice'', acct_account_id = ''acct-1'',
            acct_balance = Decimal 0 (- 2), acct_currency = ''USD''\<rparr>
        [Deposit (PyNum (Decimal 10125 (- 3))), Withdraw (PyNum (Decimal 5 0))]
     = Some [\<lparr>acct_owner = ''alice'', acct_account_id = ''acct-1'',
               acct_balance = Decimal 1013 (- 2), acct_currency = ''USD''\<rparr>,
             \<lparr>acct_owner = ''alice'', acct_account_id = ''acct-1'',
               acct_balance = Decimal 513 (- 2), acct_currency = ''USD''\<rparr>]
   \<and> Decimal 513 (- 2)
       = Decimal (0 + net_cents [Deposit (PyNum (Decimal 10125 (- 3))),
                                 Withdraw (PyNum (Decimal 5 0))]) CENT
   \<and> withdraw \<lparr>acct_owner = ''alice'', acct_account_id = ''acct-1'',
               acct_balance = Decimal 513 (- 2), acct_currency = ''USD''\<rparr>
        (PyNum (Decimal 10 0))
     = (Inl Accounts_InsufficientFundsError,
        \<lparr>acct_owner = ''alice'', acct_account_id = ''acct-1'',
          acct_balance = Decimal 513 (- 2), acct_currency = ''USD''\<rparr>)"
proof -
  let ?a0 = "\<lparr>acct_owner = ''alice'', acct_account_id = ''acct-1'',
            acct_balance = Decimal 0 (- 2), acct_currency = ''USD''\<rparr>"
  let ?a1 = "\<lparr>acct_owner = ''alice'', acct_account_id = ''acct-1'',
               acct_balance = Decimal 1013 (- 2), acct_currency = ''USD''\<rparr>"
  let ?a2 = "\<lparr>acct_owner = ''alice'', acct_account_id = ''acct-1'',
               acct_balance = Decimal 513 (- 2), acct_currency = ''USD''\<rparr>"
  let ?ops = "[Deposit (PyNum (Decimal 10125 (- 3))), Withdraw (PyNum (Decimal 5 0))]"
  have h1: "Account_init ''alice'' ''acct-1'' (PyNum (Decimal 0 0)) ''USD'' = Inr ?a0"
    by code_simp
  have h2: "run_ops ?a0 ?ops = Some [?a1, ?a2]"
    by code_simp
  have c: "accounts_to_decimal (PyNum (Decimal 10 0)) = Inr (Decimal 1000 (- 2))
           \<and> dec_less (acct_balance ?a2) (Decimal 1000 (- 2))"
    by code_simp
  note t = account_sequence_balance [OF h1 h2]
  from t have fin: "acct_balance (last (?a0 # [?a1, ?a2]))
      = Decimal (coeff (acct_balance ?a0) + net_cents ?ops) CENT" by blast
  from t c have w: "withdraw ?a2 (PyNum (Decimal 10 0)) = (Inl Accounts_InsufficientFundsError, ?a2)"
    by (metis list.set_intros(1,2))
  show ?thesis using h1 h2 fin w by simp
qed

section \<open>Properties: transaction.py\<close>

text \<open>
  With the indentation the file has, no entry of a cash kind can be constructed: when
  quantity and price are absent, as they must be, the \<open>else\<close> branch meant for the trade
  kinds raises for the missing quantity.
\<close>

lemma cash_kinds_never_constructed:
  assumes "tx_kind self \<in> {''deposit'', ''withdrawal''}"
  shows "\<exists>e. Transaction_post_init self = Inl e"
proof -
  have k: "tx_kind self \<in> set ALLOWED_KINDS" using assms by (auto simp: ALLOWED_KINDS_def)
  show ?thesis
    using assms k
    by (auto simp: Transaction_post_init_def Let_def split: sum.splits option.splits)
qed

text \<open>
  And an entry of a trade kind is constructed whatever its fields hold: account, quantity,
  price, amount and profit or loss are kept as given.
\<close>

lemma trade_kinds_unvalidated:
  assumes "tx_kind self \<in> {''buy'', ''sell''}"
  shows "\<exists>r. Transaction_post_init self = Inr r
             \<and> tx_account_id r = tx_account_id self \<and> tx_quantity r = tx_quantity self
             \<and> tx_price r = tx_price self \<and> tx_amount r = tx_amount self
             \<and> tx_profit_loss r = tx_profit_loss self"
proof -
  have k: "tx_kind self \<in> set ALLOWED_KINDS" using assms by (auto simp: ALLOWED_KINDS_def)
  show ?thesis
    using assms k
    by (auto simp: Transaction_post_init_def Let_def split: sum.splits option.splits)
qed

text \<open>
  C1.  The claim promises that a deposit with an account, a positive amount and neither
  quantity nor price is constructed with the quantized amount.  The code raises
  InvalidTransactionError instead: here for \<open>Transaction(transaction_id='t1',
  kind='deposit', account_id='acct-1', amount=Decimal('10.125'))\<close>.
\<close>

theorem deposit_construction_fails:
  "Transaction_post_init
     \<lparr>tx_transaction_id = ''t1'', tx_kind = ''deposit'', tx_account_id = Some ''acct-1'',
      tx_from_account = None, tx_to_account = None, tx_quantity = PyNone, tx_price = PyNone,
      tx_amount = PyNum (Decimal 10125 (- 3)), tx_profit_loss = PyNone,
      tx_created_at = \<lparr>dt_naive = 0, dt_tzinfo = Some UTC\<rparr>, tx_executed_at = None,
      tx_metadata = None\<rparr>
   = Inl InvalidTransactionError"
  by code_simp

theorem deposit_construction_fails_witness:
  "isl (Transaction_post_init
     \<lparr>tx_transaction_id = ''t1'', tx_kind = ''deposit'', tx_account_id = Some ''acct-1'',
      tx_from_account = None, tx_to_account = None, tx_quantity = PyNone, tx_price = PyNone,
      tx_amount = PyNum (Decimal 10125 (- 3)), tx_profit_loss = PyNone,
      tx_created_at = \<lparr>dt_naive = 0, dt_tzinfo = Some UTC\<rparr>, tx_executed_at = None,
      tx_metadata = None\<rparr>)"
  using deposit_construction_fails by simp

text \<open>
  C2.  The claim promises that a constructed buy or sell entry has an account, a positive
  quantity and price, the amount computed from them, and that an unparseable profit or loss
  is an error.  The code constructs \<open>Transaction(transaction_id='t2', kind='buy',
  profit_loss='not-a-number')\<close>, an entry with no account, no quantity, no price, the default
  amount 0.00 and the unparseable profit or loss kept.
\<close>

theorem trade_construction_unvalidated:
  "Transaction_post_init
     \<lparr>tx_transaction_id = ''t2'', tx_kind = ''buy'', tx_account_id = None,
      tx_from_account = None, tx_to_account = None, tx_quantity = PyNone, tx_price = PyNone,
      tx_amount = PyNum (Decimal 0 (- 2)), tx_profit_loss = PyOther,
      tx_created_at = \<lparr>dt_naive = 0, dt_tzinfo = Some UTC\<rparr>, tx_executed_at = None,
      tx_metadata = None\<rparr>
   = Inr \<lparr>tx_transaction_id = ''t2'', tx_kind = ''buy'', tx_account_id = None,
      tx_from_account = None, tx_to_account = None, tx_quantity = PyNone, tx_price = PyNone,
      tx_amount = PyNum (Decimal 0 (- 2)), tx_profit_loss = PyOther,
      tx_created_at = \<lparr>dt_naive = 0, dt_tzinfo = Some UTC\<rparr>, tx_executed_at = None,
      tx_metadata = None\<rparr>"
  by code_simp

theorem trade_construction_unvalidated_witness:
  "Transaction_post_init
     \<lparr>tx_transaction_id = ''t2'', tx_kind = ''buy'', tx_account_id = None,
      tx_from_account = None, tx_to_account = None, tx_quantity = PyNone, tx_price = PyNone,
      tx_amount = PyNum (Decimal 0 (- 2)), tx_profit_loss = PyOther,
      tx_created_at = \<lparr>dt_naive = 0, dt_tzinfo = Some UTC\<rparr>, tx_executed_at = None,
      tx_metadata = None\<rparr>
   \<noteq> Inl InvalidTransactionError"
  using trade_construction_unvalidated by simp

text \<open>
  The quantization helpers themselves do not drift: a value that \<open>_to_decimal_cents\<close> or
  \<open>_to_quantity\<close> returned is returned unchanged when it is given back.
\<close>

lemma quantize_idempotent: "quantize q x = Inr d \<Longrightarrow> quantize q d = Inr d"
  by (cases d) (auto simp: quantize_def Let_def split: if_splits)

lemma to_decimal_cents_idempotent:
  "to_decimal_cents v = Inr d \<Longrightarrow> to_decimal_cents (PyNum d) = Inr d"
  by (auto simp: to_decimal_cents_def py_Decimal_def dest: quantize_idempotent
      split: option.splits)

lemma transaction_to_decimal_idempotent:
  "transaction_to_decimal v = Inr d \<Longrightarrow> transaction_to_decimal (PyNum d) = Inr d"
  by (auto simp: transaction_to_decimal_def py_Decimal_def dest: quantize_idempotent
      split: option.splits)

lemma transaction_to_quantity_idempotent:
  "transaction_to_quantity v = Inr d \<Longrightarrow> transaction_to_quantity (PyNum d) = Inr d"
  by (auto simp: transaction_to_quantity_def py_Decimal_def dest: quantize_idempotent
      split: option.splits)

text \<open>
  C8.  The claim promises that the fields read back from a constructed entry are quantized.
  The code constructs \<open>Transaction(transaction_id='t3', kind='buy', account_id='tr-1',
  quantity=Decimal('1.234567891'), price=Decimal('2.345'))\<close> and the entry reads back the
  quantity 1.234567891 and the price 2.345, where the quantized values are 1.23456789 and
  2.35; its amount is the default 0.00.
\<close>

theorem trade_fields_not_quantized:
  "Transaction_post_init
     \<lparr>tx_transaction_id = ''t3'', tx_kind = ''buy'', tx_account_id = Some ''tr-1'',
      tx_from_account = None, tx_to_account = None,
      tx_quantity = PyNum (Decimal 1234567891 (- 9)), tx_price = PyNum (Decimal 2345 (- 3)),
      tx_amount = PyNum (Decimal 0 (- 2)), tx_profit_loss = PyNone,
      tx_created_at = \<lparr>dt_naive = 0, dt_tzinfo = Some UTC\<rparr>, tx_executed_at = None,
      tx_metadata = None\<rparr>
   = Inr \<lparr>tx_transaction_id = ''t3'', tx_kind = ''buy'', tx_account_id = Some ''tr-1'',
      tx_from_account = None, tx_to_account = None,
      tx_quantity = PyNum (Decimal 1234567891 (- 9)), tx_price = PyNum (Decimal 2345 (- 3)),
      tx_amount = PyNum (Decimal 0 (- 2)), tx_profit_loss = PyNone,
      tx_created_at = \<lparr>dt_naive = 0, dt_tzinfo = Some UTC\<rparr>, tx_executed_at = None,
      tx_metadata = None\<rparr>
   \<and> quantize QTY (Decimal 1234567891 (- 9)) = Inr (Decimal 123456789 (- 8))
   \<and> quantize CENT (Decimal 2345 (- 3)) = Inr (Decimal 235 (- 2))"
  by code_simp

theorem trade_fields_not_quantized_witness:
  "Transaction_post_init
     \<lparr>tx_transaction_id = ''t3'', tx_kind = ''buy'', tx_account_id = Some ''tr-1'',
      tx_from_account = None, tx_to_account = None,
      tx_quantity = PyNum (Decimal 1234567891 (- 9)), tx_price = PyNum (Decimal 2345 (- 3)),
      tx_amount = PyNum (Decimal 0 (- 2)), tx_profit_loss = PyNone,
      tx_created_at = \<lparr>dt_naive = 0, dt_tzinfo = Some UTC\<rparr>, tx_executed_at = None,
      tx_metadata = None\<rparr>
   \<noteq> Inl InvalidTransactionError"
  using trade_fields_not_quantized by simp

section \<open>Properties: Holding\<close>

lemma round_half_up_rat_of_int: "round_half_up_rat (of_int n) = n"
proof -
  have a: "\<lfloor>(of_int m :: rat) + 1 / 2\<rfloor> = m" for m :: int
    by (simp add: floor_unique)
  have "- (of_int n :: rat) = of_int (- n)" by simp
  then have b: "\<lfloor>- (of_int n :: rat) + 1 / 2\<rfloor> = - n" using a [of "- n"] by simp
  show ?thesis using a [of n] b by (simp add: round_half_up_rat_def)
qed

lemma dec_val_QTY: "dec_val (Decimal a QTY) = of_int a / 10 ^ 8"
  by (simp add: dec_val_def QTY_def)

lemma to_scale_QTY_exact: "to_scale QTY (of_int n / 10 ^ 8) = Decimal n QTY"
proof -
  have "(of_int n :: rat) / 10 ^ 8 * 10 ^ 8 = of_int n" by simp
  then show ?thesis
    using round_half_up_rat_of_int [of n] by (simp add: to_scale_def QTY_def)
qed

lemma toQuantity_expo: "toQuantity v = Inr q \<Longrightarrow> expo q = QTY"
  by (auto simp: toQuantity_def to_scale_def split: option.splits)

lemma quantity_sum_exact:
  assumes "expo x = QTY" and "expo y = QTY"
  shows "dec_val (to_scale QTY (dec_val x + dec_val y)) = dec_val x + dec_val y"
proof -
  obtain a where x: "x = Decimal a QTY" using assms(1) by (cases x) auto
  obtain b where y: "y = Decimal b QTY" using assms(2) by (cases y) auto
  have s: "dec_val x + dec_val y = of_int (a + b) / 10 ^ 8"
    by (simp add: x y dec_val_QTY add_divide_distrib)
  show ?thesis
    unfolding s to_scale_QTY_exact dec_val_QTY ..
qed

text \<open>
  C5.  When \<open>Holding.buy\<close> is given a quantity and a price that are positive once
  quantized, it returns the new quantity, which is the old quantity plus the quantity bought
  (exactly so on a holding whose quantity has 8 fractional digits), and the new average cost
  is \<open>(old_qty * old_avg + qty * price) / (old_qty + qty)\<close> quantized to cents, rounded
  half up.  On an empty holding, \<open>buy(quantity=2.5, price=3.333)\<close> gives the quantity
  2.50000000 and the average cost 3.33.
\<close>

theorem Holding_buy_weighted_average:
  assumes "toQuantity quantity = Inr qty" and "0 < dec_val qty"
      and "toMoney price = Inr pr" and "0 < dec_val pr"
  shows "Holding_buy self quantity price =
           (Inr (to_scale QTY (dec_val (hd_quantity self) + dec_val qty)),
            self\<lparr>hd_quantity := to_scale QTY (dec_val (hd_quantity self) + dec_val qty),
                 hd_average_cost := to_scale CENT
                   ((dec_val (hd_quantity self) * dec_val (hd_average_cost self)
                       + dec_val qty * dec_val pr)
                    / (dec_val (hd_quantity self) + dec_val qty))\<rparr>)
         \<and> (expo (hd_quantity self) = QTY \<longrightarrow>
              dec_val (to_scale QTY (dec_val (hd_quantity self) + dec_val qty))
                = dec_val (hd_quantity self) + dec_val qty)
         \<and> Holding_buy \<lparr>hd_symbol = ''TSLA'', hd_quantity = Decimal 0 (- 8),
                          hd_average_cost = Decimal 0 (- 2), hd_currency = ''USD''\<rparr>
               (PyNum (Decimal 25 (- 1))) (PyNum (Decimal 3333 (- 3)))
             = (Inr (Decimal 250000000 (- 8)),
                \<lparr>hd_symbol = ''TSLA'', hd_quantity = Decimal 250000000 (- 8),
                 hd_average_cost = Decimal 333 (- 2), hd_currency = ''USD''\<rparr>)"
proof -
  have g: "Holding_buy self quantity price =
           (Inr (to_scale QTY (dec_val (hd_quantity self) + dec_val qty)),
            self\<lparr>hd_quantity := to_scale QTY (dec_val (hd_quantity self) + dec_val qty),
                 hd_average_cost := to_scale CENT
                   ((dec_val (hd_quantity self) * dec_val (hd_average_cost self)
                       + dec_val qty * dec_val pr)
                    / (dec_val (hd_quantity self) + dec_val qty))\<rparr>)"
    using assms by (simp add: Holding_buy_def Let_def)
  have e: "expo (hd_quantity self) = QTY \<longrightarrow>
              dec_val (to_scale QTY (dec_val (hd_quantity self) + dec_val qty))
                = dec_val (hd_quantity self) + dec_val qty"
    using toQuantity_expo [OF assms(1)] by (simp add: quantity_sum_exact)
  have c: "Holding_buy \<lparr>hd_symbol = ''TSLA'', hd_quantity = Decimal 0 (- 8),
                          hd_average_cost = Decimal 0 (- 2), hd_currency = ''USD''\<rparr>
               (PyNum (Decimal 25 (- 1))) (PyNum (Decimal 3333 (- 3)))
             = (Inr (Decimal 250000000 (- 8)),
                \<lparr>hd_symbol = ''TSLA'', hd_quantity = Decimal 250000000 (- 8),
                 hd_average_cost = Decimal 333 (- 2), hd_currency = ''USD''\<rparr>)"
    by code_simp
  show ?thesis using g e c by blast
qed

theorem Holding_buy_weighted_average_witness:
  "toQuantity (PyNum (Decimal 1 0)) = Inr (Decimal 100000000 (- 8))
   \<and> 0 < dec_val (Decimal 100000000 (- 8))
   \<and> toMoney (PyNum (Decimal 400 (- 2))) = Inr (Decimal 400 (- 2))
   \<and> 0 < dec_val (Decimal 400 (- 2))
   \<and> Holding_buy \<lparr>hd_symbol = ''GOOG'', hd_quantity = Decimal 200000000 (- 8),
                    hd_average_cost = Decimal 300 (- 2), hd_currency = ''USD''\<rparr>
        (PyNum (Decimal 1 0)) (PyNum (Decimal 400 (- 2)))
      = (Inr (Decimal 300000000 (- 8)),
         \<lparr>hd_symbol = ''GOOG'', hd_quantity = Decimal 300000000 (- 8),
          hd_average_cost = Decimal 333 (- 2), hd_currency = ''USD''\<rparr>)"
proof -
  let ?h = "\<lparr>hd_symbol = ''GOOG'', hd_quantity = Decimal 200000000 (- 8),
                    hd_average_cost = Decimal 300 (- 2), hd_currency = ''USD''\<rparr>"
  have h1: "toQuantity (PyNum (Decimal 1 0)) = Inr (Decimal 100000000 (- 8))" by code_simp
  have h2: "0 < dec_val (Decimal 100000000 (- 8))" by code_simp
  have h3: "toMoney (PyNum (Decimal 400 (- 2))) = Inr (Decimal 400 (- 2))" by code_simp
  have h4: "0 < dec_val (Decimal 400 (- 2))" by code_simp
  have v1: "to_scale QTY (dec_val (hd_quantity ?h) + dec_val (Decimal 100000000 (- 8)))
            = Decimal 300000000 (- 8)" by code_simp
  have v2: "to_scale CENT
                   ((dec_val (hd_quantity ?h) * dec_val (hd_average_cost ?h)
                       + dec_val (Decimal 100000000 (- 8)) * dec_val (Decimal 400 (- 2)))
                    / (dec_val (hd_quantity ?h) + dec_val (Decimal 100000000 (- 8))))
            = Decimal 333 (- 2)" by code_simp
  from Holding_buy_weighted_average [OF h1 h2 h3 h4, of ?h]
  have "Holding_buy ?h (PyNum (Decimal 1 0)) (PyNum (Decimal 400 (- 2))) =
           (Inr (to_scale QTY (dec_val (hd_quantity ?h) + dec_val (Decimal 100000000 (- 8)))),
            ?h\<lparr>hd_quantity := to_scale QTY (dec_val (hd_quantity ?h) + dec_val (Decimal 100000000 (- 8))),
                 hd_average_cost := to_scale CENT
                   ((dec_val (hd_quantity ?h) * dec_val (hd_average_cost ?h)
                       + dec_val (Decimal 100000000 (- 8)) * dec_val (Decimal 400 (- 2)))
                    / (dec_val (hd_quantity ?h) + dec_val (Decimal 100000000 (- 8))))\<rparr>)"
    by blast
  then have "Holding_buy ?h (PyNum (Decimal 1 0)) (PyNum (Decimal 400 (- 2))) =
      (Inr (Decimal 300000000 (- 8)),
         \<lparr>hd_symbol = ''GOOG'', hd_quantity = Decimal 300000000 (- 8),
          hd_average_cost = Decimal 333 (- 2), hd_currency = ''USD''\<rparr>)"
    unfolding v1 v2 by simp
  then show ?thesis using h1 h2 h3 h4 by blast
qed

section \<open>Properties: portfolio.py\<close>

lemma dec_eq_zero: "dec_eq x (Decimal 0 e) \<longleftrightarrow> coeff x = 0"
  by (simp add: dec_eq_def dec_align_def Let_def)

lemma dict_get_del: "dict_get (dict_del d k) k = None"
  by (induction d) (auto simp: dict_get_def dict_del_def)

lemma dict_get_del_other: "k' \<noteq> k \<Longrightarrow> dict_get (dict_del d k) k' = dict_get d k'"
  by (induction d) (auto simp: dict_get_def dict_del_def)

text \<open>
  C6, as amended.  \<open>Portfolio.sell\<close> refuses an empty symbol with ValueError before it
  looks anything up.  For a symbol that is not empty: when no holding stands under the
  trimmed symbol it raises PortfolioNotFoundError and leaves the portfolio and the heap as
  they were; otherwise it calls the holding's \<open>sell\<close>, whatever that method does, and
  passes on its outcome; and when the call returned and left the holding with a quantity of
  zero, the symbol is removed from the dictionary, which is otherwise unchanged.
\<close>

theorem Portfolio_sell_routes:
  "(symbol = [] \<longrightarrow>
      Portfolio_sell hsell (h, p) symbol quantity price = (Inl ValueError, (h, p)))
   \<and> (symbol \<noteq> [] \<and> dict_get (pf_holdings p) (strip symbol) = None \<longrightarrow>
      Portfolio_sell hsell (h, p) symbol quantity price = (Inl PortfolioNotFoundError, (h, p)))
   \<and> (\<forall>r e hd1.
        symbol \<noteq> [] \<and> dict_get (pf_holdings p) (strip symbol) = Some r
        \<and> hsell (heap_holding h r) quantity price = (Inl e, hd1) \<longrightarrow>
        Portfolio_sell hsell (h, p) symbol quantity price
          = (Inl e, (heap_set_holding h r hd1, p)))
   \<and> (\<forall>r pnl hd1.
        symbol \<noteq> [] \<and> dict_get (pf_holdings p) (strip symbol) = Some r
        \<and> hsell (heap_holding h r) quantity price = (Inr pnl, hd1) \<longrightarrow>
        (\<exists>p1. Portfolio_sell hsell (h, p) symbol quantity price
                = (Inr pnl, (heap_set_holding h r hd1, p1))
            \<and> (if coeff (hd_quantity hd1) = 0
                then p1 = p\<lparr>pf_holdings := dict_del (pf_holdings p) (strip symbol)\<rparr>
                   \<and> dict_get (pf_holdings p1) (strip symbol) = None
                else p1 = p)))"
  by (auto simp: Portfolio_sell_def normalize_symbol_def dec_eq_zero dict_get_del)

text \<open>
  C6, as stated, fails for the empty symbol: no holding stands under it in an empty
  portfolio, and the call raises ValueError, not PortfolioNotFoundError.
\<close>

theorem Portfolio_sell_empty_symbol_counterexample:
  "dict_get (pf_holdings \<lparr>pf_portfolio_id = ''p6'', pf_owner = ''frank'', pf_account_id = None,
                          pf_currency = ''USD'', pf_holdings = []\<rparr>) (strip []) = None
   \<and> Portfolio_sell Holding_sell
        (\<lparr>hp_holdings = [], hp_lists = []\<rparr>,
         \<lparr>pf_portfolio_id = ''p6'', pf_owner = ''frank'', pf_account_id = None,
          pf_currency = ''USD'', pf_holdings = []\<rparr>)
        [] (PyNum (Decimal 1 0)) (PyNum (Decimal 1 0))
      = (Inl ValueError,
         (\<lparr>hp_holdings = [], hp_lists = []\<rparr>,
          \<lparr>pf_portfolio_id = ''p6'', pf_owner = ''frank'', pf_account_id = None,
           pf_currency = ''USD'', pf_holdings = []\<rparr>))
   \<and> ValueError \<noteq> PortfolioNotFoundError"
  by (simp add: Portfolio_sell_def normalize_symbol_def dict_get_def strip_def)

theorem Portfolio_sell_routes_witness:
  "Portfolio_sell Holding_sell
        (\<lparr>hp_holdings = [\<lparr>hd_symbol = ''IBM'', hd_quantity = Decimal 300000000 (- 8),
                            hd_average_cost = Decimal 1000 (- 2), hd_currency = ''USD''\<rparr>],
          hp_lists = []\<rparr>,
         \<lparr>pf_portfolio_id = ''p5'', pf_owner = ''erin'', pf_account_id = None,
          pf_currency = ''USD'', pf_holdings = [(''IBM'', 0)]\<rparr>)
        ''IBM'' (PyNum (Decimal 3 0)) (PyNum (Decimal 1000 (- 2)))
      = (Inr (Decimal 0 (- 2)),
         (\<lparr>hp_holdings = [\<lparr>hd_symbol = ''IBM'', hd_quantity = Decimal 0 (- 8),
                            hd_average_cost = Decimal 0 (- 2), hd_currency = ''USD''\<rparr>],
           hp_lists = []\<rparr>,
          \<lparr>pf_portfolio_id = ''p5'', pf_owner = ''erin'', pf_account_id = None,
           pf_currency = ''USD'', pf_holdings = []\<rparr>))
   \<and> Portfolio_sell Holding_sell
        (\<lparr>hp_holdings = [], hp_lists = []\<rparr>,
         \<lparr>pf_portfolio_id = ''p6'', pf_owner = ''frank'', pf_account_id = None,
          pf_currency = ''USD'', pf_holdings = []\<rparr>)
        ''NOPE'' (PyNum (Decimal 1 0)) (PyNum (Decimal 100 (- 2)))
      = (Inl PortfolioNotFoundError,
         (\<lparr>hp_holdings = [], hp_lists = []\<rparr>,
          \<lparr>pf_portfolio_id = ''p6'', pf_owner = ''frank'', pf_account_id = None,
           pf_currency = ''USD'', pf_holdings = []\<rparr>))"
proof -
  let ?hd = "\<lparr>hd_symbol = ''IBM'', hd_quantity = Decimal 300000000 (- 8),
                            hd_average_cost = Decimal 1000 (- 2), hd_currency = ''USD''\<rparr>"
  let ?hdz = "\<lparr>hd_symbol = ''IBM'', hd_quantity = Decimal 0 (- 8),
                            hd_average_cost = Decimal 0 (- 2), hd_currency = ''USD''\<rparr>"
  let ?h = "\<lparr>hp_holdings = [?hd], hp_lists = []\<rparr>"
  let ?p = "\<lparr>pf_portfolio_id = ''p5'', pf_owner = ''erin'', pf_account_id = None,
          pf_currency = ''USD'', pf_holdings = [(''IBM'', 0::nat)]\<rparr>"
  let ?he = "\<lparr>hp_holdings = [], hp_lists = []\<rparr>"
  let ?pe = "\<lparr>pf_portfolio_id = ''p6'', pf_owner = ''frank'', pf_account_id = None,
          pf_currency = ''USD'', pf_holdings = []\<rparr>"
  have a1: "''IBM'' \<noteq> []" by simp
  have a2: "dict_get (pf_holdings ?p) (strip ''IBM'') = Some 0"
    by (simp add: dict_get_def strip_def is_space_def)
  have a3: "Holding_sell (heap_holding ?h 0) (PyNum (Decimal 3 0)) (PyNum (Decimal 1000 (- 2)))
            = (Inr (Decimal 0 (- 2)), ?hdz)" by code_simp
  have a4: "heap_set_holding ?h 0 ?hdz = \<lparr>hp_holdings = [?hdz], hp_lists = []\<rparr>"
    by (simp add: heap_set_holding_def)
  have a5: "dict_del (pf_holdings ?p) (strip ''IBM'') = []"
    by (simp add: dict_del_def strip_def is_space_def)
  note t = Portfolio_sell_routes [of "''IBM''" Holding_sell ?h ?p "PyNum (Decimal 3 0)"
      "PyNum (Decimal 1000 (- 2))"]
  from t a1 a2 a3 obtain p1 where
    r: "Portfolio_sell Holding_sell (?h, ?p) ''IBM'' (PyNum (Decimal 3 0)) (PyNum (Decimal 1000 (- 2)))
        = (Inr (Decimal 0 (- 2)), (heap_set_holding ?h 0 ?hdz, p1))"
    and p1: "p1 = ?p\<lparr>pf_holdings := dict_del (pf_holdings ?p) (strip ''IBM'')\<rparr>"
    by (metis (no_types, lifting) decimal.sel(1) holding.select_convs(2))
  have first: "Portfolio_sell Holding_sell (?h, ?p) ''IBM'' (PyNum (Decimal 3 0)) (PyNum (Decimal 1000 (- 2)))
        = (Inr (Decimal 0 (- 2)), (\<lparr>hp_holdings = [?hdz], hp_lists = []\<rparr>,
           \<lparr>pf_portfolio_id = ''p5'', pf_owner = ''erin'', pf_account_id = None,
           pf_currency = ''USD'', pf_holdings = []\<rparr>))"
    using r p1 a4 a5 by simp
  have b1: "''NOPE'' \<noteq> [] \<and> dict_get (pf_holdings ?pe) (strip ''NOPE'') = None"
    by (simp add: dict_get_def)
  from Portfolio_sell_routes [of "''NOPE''" Holding_sell ?he ?pe "PyNum (Decimal 1 0)"
      "PyNum (Decimal 100 (- 2))"] b1
  have second: "Portfolio_sell Holding_sell (?he, ?pe) ''NOPE'' (PyNum (Decimal 1 0))
      (PyNum (Decimal 100 (- 2))) = (Inl PortfolioNotFoundError, (?he, ?pe))"
    by blast
  show ?thesis using first second by blast
qed

lemma holdings_state_set_list:
  "holdings_state (heap_set_list h r xs, p) = holdings_state (h, p)"
  by (simp add: holdings_state_def heap_set_list_def heap_holding_def)

lemma holdings_state_new_list:
  "holdings_state (snd (heap_new_list h xs), p) = holdings_state (h, p)"
  by (simp add: holdings_state_def heap_new_list_def heap_holding_def)

lemma market_value_loop_holdings:
  "hp_holdings h = hp_holdings h' \<Longrightarrow>
     market_value_loop hmv pp h items t = market_value_loop hmv pp h' items t"
  by (induction items arbitrary: t) (auto simp: heap_holding_def split: sum.splits)

text \<open>
  C9, as amended.  \<open>list_holdings\<close> returns a new list: its elements are the references
  the portfolio's dictionary holds, no holding is copied, and whatever is then written into
  that list, the portfolio holds what it held.  The elements are the portfolio's own
  objects: what a caller writes into one of them is what the portfolio holds under that
  symbol afterwards.  \<open>market_value\<close> and \<open>get_balance\<close> return Decimals, which are
  immutable values: the market value does not depend on the returned list, and
  \<open>get_balance\<close> is the balance.
\<close>

theorem list_holdings_shallow_copy:
  assumes "list_holdings (h, p) = (lr, h1)"
  shows "hp_lists h1 ! lr = dict_values (pf_holdings p)
       \<and> hp_holdings h1 = hp_holdings h
       \<and> (\<forall>xs. holdings_state (heap_set_list h1 lr xs, p) = holdings_state (h, p))
       \<and> (\<forall>k r v. (k, r) \<in> set (pf_holdings p) \<and> r < length (hp_holdings h) \<longrightarrow>
              r \<in> set (hp_lists h1 ! lr)
              \<and> (k, v) \<in> set (holdings_state (heap_set_holding h1 r v, p)))
       \<and> (\<forall>xs. Portfolio_market_value hmv (heap_set_list h1 lr xs, p) pp
                 = Portfolio_market_value hmv (h, p) pp)
       \<and> get_balance a = acct_balance a"
proof -
  from assms have lr: "lr = length (hp_lists h)"
    and h1: "h1 = h\<lparr>hp_lists := hp_lists h @ [dict_values (pf_holdings p)]\<rparr>"
    by (auto simp: list_holdings_def heap_new_list_def)
  have a: "hp_lists h1 ! lr = dict_values (pf_holdings p)" by (simp add: lr h1)
  have b: "hp_holdings h1 = hp_holdings h" by (simp add: h1)
  have c: "holdings_state (heap_set_list h1 lr xs, p) = holdings_state (h, p)" for xs
    by (simp add: holdings_state_set_list) (simp add: h1 holdings_state_def heap_holding_def)
  have d: "r \<in> set (hp_lists h1 ! lr)
           \<and> (k, v) \<in> set (holdings_state (heap_set_holding h1 r v, p))"
    if "(k, r) \<in> set (pf_holdings p)" and "r < length (hp_holdings h)" for k r v
  proof
    show "r \<in> set (hp_lists h1 ! lr)" using that(1) by (force simp: a dict_values_def)
    have "heap_holding (heap_set_holding h1 r v) r = v"
      using that(2) by (simp add: heap_holding_def heap_set_holding_def h1)
    then show "(k, v) \<in> set (holdings_state (heap_set_holding h1 r v, p))"
      using that(1) by (force simp: holdings_state_def)
  qed
  have e: "get_balance a = acct_balance a" by (simp add: get_balance_def)
  have f: "Portfolio_market_value hmv (heap_set_list h1 lr xs, p) pp
             = Portfolio_market_value hmv (h, p) pp" for xs
  proof -
    have eq: "market_value_loop hmv q (heap_set_list h1 lr xs) items t
            = market_value_loop hmv q h items t" for q items t
      by (rule market_value_loop_holdings) (simp add: heap_set_list_def b)
    show ?thesis
      by (cases pp) (simp_all add: Portfolio_market_value_def eq)
  qed
  show ?thesis using a b c d e f by blast
qed

text \<open>
  C9, as stated, fails: a portfolio holds one share of AAPL; through the first element of
  the list that \<open>list_holdings\<close> returned, the caller sets quantity and average cost to
  zero, and the portfolio's own holding of AAPL has changed with it.
\<close>

theorem list_holdings_element_alias_counterexample:
  "list_holdings
     (\<lparr>hp_holdings = [\<lparr>hd_symbol = ''AAPL'', hd_quantity = Decimal 100000000 (- 8),
                        hd_average_cost = Decimal 1000 (- 2), hd_currency = ''USD''\<rparr>],
       hp_lists = []\<rparr>,
      \<lparr>pf_portfolio_id = ''p1'', pf_owner = ''alice'', pf_account_id = None,
       pf_currency = ''USD'', pf_holdings = [(''AAPL'', 0)]\<rparr>)
   = (0, \<lparr>hp_holdings = [\<lparr>hd_symbol = ''AAPL'', hd_quantity = Decimal 100000000 (- 8),
                        hd_average_cost = Decimal 1000 (- 2), hd_currency = ''USD''\<rparr>],
          hp_lists = [[0]]\<rparr>)
   \<and> holdings_state
        (\<lparr>hp_holdings = [\<lparr>hd_symbol = ''AAPL'', hd_quantity = Decimal 100000000 (- 8),
                        hd_average_cost = Decimal 1000 (- 2), hd_currency = ''USD''\<rparr>],
          hp_lists = [[0]]\<rparr>,
         \<lparr>pf_portfolio_id = ''p1'', pf_owner = ''alice'', pf_account_id = None,
          pf_currency = ''USD'', pf_holdings = [(''AAPL'', 0)]\<rparr>)
      = [(''AAPL'', \<lparr>hd_symbol = ''AAPL'', hd_quantity = Decimal 100000000 (- 8),
                      hd_average_cost = Decimal 1000 (- 2), hd_currency = ''USD''\<rparr>)]
   \<and> holdings_state
        (heap_set_holding
           \<lparr>hp_holdings = [\<lparr>hd_symbol = ''AAPL'', hd_quantity = Decimal 100000000 (- 8),
                        hd_average_cost = Decimal 1000 (- 2), hd_currency = ''USD''\<rparr>],
             hp_lists = [[0]]\<rparr>
           ([0] ! 0)
           \<lparr>hd_symbol = ''AAPL'', hd_quantity = Decimal 0 (- 8),
             hd_average_cost = Decimal 0 (- 2), hd_currency = ''USD''\<rparr>,
         \<lparr>pf_portfolio_id = ''p1'', pf_owner = ''alice'', pf_account_id = None,
          pf_currency = ''USD'', pf_holdings = [(''AAPL'', 0)]\<rparr>)
      = [(''AAPL'', \<lparr>hd_symbol = ''AAPL'', hd_quantity = Decimal 0 (- 8),
                      hd_average_cost = Decimal 0 (- 2), hd_currency = ''USD''\<rparr>)]"
  by (simp add: list_holdings_def heap_new_list_def dict_values_def holdings_state_def
      heap_holding_def heap_set_holding_def)

theorem list_holdings_shallow_copy_witness:
  "holdings_state
     (heap_set_list
        \<lparr>hp_holdings = [\<lparr>hd_symbol = ''AAPL'', hd_quantity = Decimal 100000000 (- 8),
                           hd_average_cost = Decimal 1000 (- 2), hd_currency = ''USD''\<rparr>],
          hp_lists = [[0]]\<rparr> 0 [],
      \<lparr>pf_portfolio_id = ''p1'', pf_owner = ''alice'', pf_account_id = None,
       pf_currency = ''USD'', pf_holdings = [(''AAPL'', 0)]\<rparr>)
   = holdings_state
     (\<lparr>hp_holdings = [\<lparr>hd_symbol = ''AAPL'', hd_quantity = Decimal 100000000 (- 8),
                           hd_average_cost = Decimal 1000 (- 2), hd_currency = ''USD''\<rparr>],
       hp_lists = []\<rparr>,
      \<lparr>pf_portfolio_id = ''p1'', pf_owner = ''alice'', pf_account_id = None,
       pf_currency = ''USD'', pf_holdings = [(''AAPL'', 0)]\<rparr>)
   \<and> (''AAPL'', \<lparr>hd_symbol = ''AAPL'', hd_quantity = Decimal 0 (- 8),
                   hd_average_cost = Decimal 0 (- 2), hd_currency = ''USD''\<rparr>)
       \<in> set (holdings_state
          (heap_set_holding
             \<lparr>hp_holdings = [\<lparr>hd_symbol = ''AAPL'', hd_quantity = Decimal 100000000 (- 8),
                           hd_average_cost = Decimal 1000 (- 2), hd_currency = ''USD''\<rparr>],
               hp_lists = [[0]]\<rparr> 0
             \<lparr>hd_symbol = ''AAPL'', hd_quantity = Decimal 0 (- 8),
                   hd_average_cost = Decimal 0 (- 2), hd_currency = ''USD''\<rparr>,
           \<lparr>pf_portfolio_id = ''p1'', pf_owner = ''alice'', pf_account_id = None,
            pf_currency = ''USD'', pf_holdings = [(''AAPL'', 0)]\<rparr>))"
proof -
  let ?hda = "\<lparr>hd_symbol = ''AAPL'', hd_quantity = Decimal 100000000 (- 8),
                           hd_average_cost = Decimal 1000 (- 2), hd_currency = ''USD''\<rparr>"
  let ?hdb = "\<lparr>hd_symbol = ''AAPL'', hd_quantity = Decimal 0 (- 8),
                   hd_average_cost = Decimal 0 (- 2), hd_currency = ''USD''\<rparr>"
  let ?hp = "\<lparr>hp_holdings = [?hda], hp_lists = []\<rparr>"
  let ?hq = "\<lparr>hp_holdings = [?hda], hp_lists = [[0::nat]]\<rparr>"
  let ?pf = "\<lparr>pf_portfolio_id = ''p1'', pf_owner = ''alice'', pf_account_id = None,
       pf_currency = ''USD'', pf_holdings = [(''AAPL'', 0::nat)]\<rparr>"
  have l: "list_holdings (?hp, ?pf) = (0, ?hq)"
    by (simp add: list_holdings_def heap_new_list_def dict_values_def)
  have m: "(''AAPL'', 0) \<in> set (pf_holdings ?pf) \<and> (0::nat) < length (hp_holdings ?hp)"
    by simp
  note t = list_holdings_shallow_copy [OF l, where a = "\<lparr>acct_owner = ''alice'',
      acct_account_id = ''acct-1'', acct_balance = Decimal 0 (- 2), acct_currency = ''USD''\<rparr>"]
  from t have one: "holdings_state (heap_set_list ?hq 0 [], ?pf) = holdings_state (?hp, ?pf)"
    by blast
  from t m have two: "(''AAPL'', ?hdb) \<in> set (holdings_state (heap_set_holding ?hq 0 ?hdb, ?pf))"
    by blast
  show ?thesis using one two by blast
qed

section \<open>Properties: valuation.py\<close>

lemma unresolvable_price:
  assumes "price_override ov (hl_symbol h) = PyNone"
      and "ps = None \<or> (\<exists>svc e. ps = Some svc \<and> svc (hl_symbol h) = Inl e)"
  shows "resolve_price ps ov h = Inr None"
  using assms by (auto simp: resolve_price_def get_price_for_symbol_def)

lemma unpriced_row:
  assumes "is_holding h" and "resolve_price ps ov h = Inr None"
  shows "\<exists>row. breakdown_row_of ps ov h = Inr row \<and> row_symbol row = hl_symbol h
           \<and> row_market_price row = None \<and> row_market_value row = None
           \<and> row_unrealized_pl row = None"
  using assms by (auto simp: breakdown_row_of_def is_holding_def split: option.splits)

lemma row_price:
  "breakdown_row_of ps ov h = Inr row \<Longrightarrow>
     resolve_price ps ov h = Inr (row_market_price row) \<and> row_symbol row = hl_symbol h
     \<and> (row_market_price row = None \<longrightarrow> row_market_value row = None \<and> row_unrealized_pl row = None)"
  by (auto simp: breakdown_row_of_def split: sum.splits option.splits if_splits)

lemma breakdown_loop_rows:
  "breakdown_loop ps ov hs (rows, a, b) = Inr (rows1, a1, b1) \<Longrightarrow>
     \<exists>new. rows1 = rows @ new \<and> map Inr new = map (breakdown_row_of ps ov) hs"
proof (induction hs arbitrary: rows a b)
  case Nil
  then show ?case by simp
next
  case (Cons h hs)
  from Cons.prems obtain row where row: "breakdown_row_of ps ov h = Inr row"
    and rest: "breakdown_loop ps ov hs
            (rows @ [row], add_if_present a (row_market_value row),
             add_if_present b (row_unrealized_pl row)) = Inr (rows1, a1, b1)"
    by (auto split: sum.splits)
  from Cons.IH [OF rest] obtain new where "rows1 = (rows @ [row]) @ new"
    and "map Inr new = map (breakdown_row_of ps ov) hs" by blast
  then have "rows1 = rows @ (row # new) \<and> map Inr (row # new) = map (breakdown_row_of ps ov) (h # hs)"
    using row by simp
  then show ?case by blast
qed

lemma breakdown_loop_skips_unpriced:
  assumes "\<forall>h \<in> set hs. is_holding h"
      and "breakdown_loop ps ov (filter (price_resolves ps ov) hs) (rows', a, b) = Inr (rows1', a1, b1)"
  shows "\<exists>rows1. breakdown_loop ps ov hs (rows, a, b) = Inr (rows1, a1, b1)"
  using assms
proof (induction hs arbitrary: rows rows' a b)
  case Nil
  then show ?case by simp
next
  case (Cons h hs)
  show ?case
  proof (cases "price_resolves ps ov h")
    case True
    with Cons.prems(2) obtain row where row: "breakdown_row_of ps ov h = Inr row"
      and rest: "breakdown_loop ps ov (filter (price_resolves ps ov) hs)
            (rows' @ [row], add_if_present a (row_market_value row),
             add_if_present b (row_unrealized_pl row)) = Inr (rows1', a1, b1)"
      by (auto split: sum.splits)
    from Cons.IH [OF _ rest, of "rows @ [row]"] Cons.prems(1) row show ?thesis by simp
  next
    case False
    then have np: "resolve_price ps ov h = Inr None" by (simp add: price_resolves_def)
    have "is_holding h" using Cons.prems(1) by simp
    from unpriced_row [OF this np] obtain row where row: "breakdown_row_of ps ov h = Inr row"
      and none: "row_market_value row = None" "row_unrealized_pl row = None" by blast
    from Cons.prems(2) False have rest:
      "breakdown_loop ps ov (filter (price_resolves ps ov) hs) (rows', a, b) = Inr (rows1', a1, b1)"
      by simp
    from Cons.IH [OF _ rest, of "rows @ [row]"] Cons.prems(1) row none show ?thesis
      by (simp add: add_if_present_def)
  qed
qed

text \<open>
  C7.  Take holdings whose quantity and average cost are numbers, as those of \<open>Holding\<close>
  objects are.  Whenever \<open>portfolio_breakdown\<close> returns on the holdings whose price
  resolves, it returns on all of them as well, with the same two totals: a holding without a
  price neither aborts the call nor enters the aggregates.  The result has one row per
  holding, in order, and the row of a holding that has no override and whose oracle lookup
  fails (or for which there is no oracle) has no market price, no market value and no
  unrealized profit or loss.
\<close>

theorem portfolio_breakdown_partial_failure:
  assumes "\<forall>h \<in> set hs. is_holding h"
      and "portfolio_breakdown ps (filter (price_resolves ps ov) hs) ov = Inr r'"
  shows "\<exists>r. portfolio_breakdown ps hs ov = Inr r
           \<and> bd_total_market_value r = bd_total_market_value r'
           \<and> bd_total_unrealized_pl r = bd_total_unrealized_pl r'
           \<and> length (bd_holdings r) = length hs
           \<and> (\<forall>i < length hs.
                 row_symbol (bd_holdings r ! i) = hl_symbol (hs ! i)
                 \<and> (price_override ov (hl_symbol (hs ! i)) = PyNone
                      \<and> (ps = None
                          \<or> (\<exists>svc e. ps = Some svc \<and> svc (hl_symbol (hs ! i)) = Inl e))
                    \<longrightarrow> row_market_price (bd_holdings r ! i) = None
                        \<and> row_market_value (bd_holdings r ! i) = None
                        \<and> row_unrealized_pl (bd_holdings r ! i) = None))"
proof -
  from assms(2) obtain rows1' a1 b1 where
    l': "breakdown_loop ps ov (filter (price_resolves ps ov) hs)
           ([], Decimal 0 (- 2), Decimal 0 (- 2)) = Inr (rows1', a1, b1)"
    and qa: "quantize CENT a1 = Inr (bd_total_market_value r')"
    and qb: "quantize CENT b1 = Inr (bd_total_unrealized_pl r')"
    by (auto simp: portfolio_breakdown_def split: sum.splits prod.splits)
  from breakdown_loop_skips_unpriced [OF assms(1) l', of "[]"] obtain rows1 where
    l: "breakdown_loop ps ov hs ([], Decimal 0 (- 2), Decimal 0 (- 2)) = Inr (rows1, a1, b1)"
    by blast
  let ?r = "\<lparr>bd_holdings = rows1, bd_total_market_value = bd_total_market_value r',
              bd_total_unrealized_pl = bd_total_unrealized_pl r'\<rparr>"
  have res: "portfolio_breakdown ps hs ov = Inr ?r"
    using l qa qb by (simp add: portfolio_breakdown_def)
  from breakdown_loop_rows [OF l] have rows: "map Inr rows1 = map (breakdown_row_of ps ov) hs"
    by auto
  then have len: "length rows1 = length hs" by (metis length_map)
  have each: "row_symbol (rows1 ! i) = hl_symbol (hs ! i)
       \<and> (price_override ov (hl_symbol (hs ! i)) = PyNone
            \<and> (ps = None \<or> (\<exists>svc e. ps = Some svc \<and> svc (hl_symbol (hs ! i)) = Inl e))
          \<longrightarrow> row_market_price (rows1 ! i) = None
              \<and> row_market_value (rows1 ! i) = None
              \<and> row_unrealized_pl (rows1 ! i) = None)" if i: "i < length hs" for i
  proof -
    have "map Inr rows1 ! i = map (breakdown_row_of ps ov) hs ! i" using rows by simp
    then have row: "breakdown_row_of ps ov (hs ! i) = Inr (rows1 ! i)" using i len by simp
    from row_price [OF row] unresolvable_price [of ov "hs ! i" ps]
    show ?thesis by auto
  qed
  show ?thesis using res len each by auto
qed

lemma dec_mul_exact:
  "\<bar>coeff x * coeff y\<bar> < 10 ^ PREC \<Longrightarrow> dec_mul x y = Decimal (coeff x * coeff y) (expo x + expo y)"
  by (simp add: dec_mul_def ctx_fix_small)

lemma dec_add_exact:
  "\<bar>fst (dec_align x y) + snd (dec_align x y)\<bar> < 10 ^ PREC \<Longrightarrow>
     dec_add x y = Decimal (fst (dec_align x y) + snd (dec_align x y)) (min (expo x) (expo y))"
  by (simp add: dec_add_def ctx_fix_small)

lemma dec_sub_exact:
  "\<bar>fst (dec_align x y) - snd (dec_align x y)\<bar> < 10 ^ PREC \<Longrightarrow>
     dec_sub x y = Decimal (fst (dec_align x y) - snd (dec_align x y)) (min (expo x) (expo y))"
  by (simp add: dec_sub_def ctx_fix_small)

lemmas valuation_eval =
  breakdown_row_of_def resolve_price_def price_override_def dict_get_def
  get_price_for_symbol_def valuation_to_decimal_cents_def py_Decimal_def quantize_def
  holding_market_value_def holding_unrealized_pl_def truthy_def dec_mul_exact dec_add_exact
  dec_sub_exact dec_align_def round_half_up_def CENT_def PREC_def add_if_present_def
  portfolio_breakdown_def is_holding_def price_resolves_def Let_def

theorem portfolio_breakdown_partial_failure_witness:
  "is_holding \<lparr>hl_symbol = Some ''AAPL'', hl_quantity = PyNum (Decimal 200000000 (- 8)),
                 hl_average_cost = PyNum (Decimal 10000 (- 2))\<rparr>
   \<and> is_holding \<lparr>hl_symbol = Some ''XYZ'', hl_quantity = PyNum (Decimal 100000000 (- 8)),
                 hl_average_cost = PyNum (Decimal 500 (- 2))\<rparr>
   \<and> portfolio_breakdown (Some get_share_price)
        (filter (price_resolves (Some get_share_price) [])
           [\<lparr>hl_symbol = Some ''AAPL'', hl_quantity = PyNum (Decimal 200000000 (- 8)),
              hl_average_cost = PyNum (Decimal 10000 (- 2))\<rparr>,
            \<lparr>hl_symbol = Some ''XYZ'', hl_quantity = PyNum (Decimal 100000000 (- 8)),
              hl_average_cost = PyNum (Decimal 500 (- 2))\<rparr>]) []
      = Inr \<lparr>bd_holdings =
               [\<lparr>row_symbol = Some ''AAPL'', row_quantity = Decimal 200000000 (- 8),
                 row_average_cost = Some (Decimal 10000 (- 2)),
                 row_market_price = Some (Decimal 15000 (- 2)),
                 row_market_value = Some (Decimal 30000 (- 2)),
                 row_unrealized_pl = Some (Decimal 10000 (- 2))\<rparr>],
             bd_total_market_value = Decimal 30000 (- 2),
             bd_total_unrealized_pl = Decimal 10000 (- 2)\<rparr>
   \<and> portfolio_breakdown (Some get_share_price)
        [\<lparr>hl_symbol = Some ''AAPL'', hl_quantity = PyNum (Decimal 200000000 (- 8)),
           hl_average_cost = PyNum (Decimal 10000 (- 2))\<rparr>,
         \<lparr>hl_symbol = Some ''XYZ'', hl_quantity = PyNum (Decimal 100000000 (- 8)),
           hl_average_cost = PyNum (Decimal 500 (- 2))\<rparr>] []
      = Inr \<lparr>bd_holdings =
               [\<lparr>row_symbol = Some ''AAPL'', row_quantity = Decimal 200000000 (- 8),
                 row_average_cost = Some (Decimal 10000 (- 2)),
                 row_market_price = Some (Decimal 15000 (- 2)),
                 row_market_value = Some (Decimal 30000 (- 2)),
                 row_unrealized_pl = Some (Decimal 10000 (- 2))\<rparr>,
                \<lparr>row_symbol = Some ''XYZ'', row_quantity = Decimal 100000000 (- 8),
                 row_average_cost = Some (Decimal 500 (- 2)),
                 row_market_price = None, row_market_value = None,
                 row_unrealized_pl = None\<rparr>],
             bd_total_market_value = Decimal 30000 (- 2),
             bd_total_unrealized_pl = Decimal 10000 (- 2)\<rparr>"
proof -
  let ?ha = "\<lparr>hl_symbol = Some ''AAPL'', hl_quantity = PyNum (Decimal 200000000 (- 8)),
                 hl_average_cost = PyNum (Decimal 10000 (- 2))\<rparr>"
  let ?hb = "\<lparr>hl_symbol = Some ''XYZ'', hl_quantity = PyNum (Decimal 100000000 (- 8)),
                 hl_average_cost = PyNum (Decimal 500 (- 2))\<rparr>"
  let ?ra = "\<lparr>row_symbol = Some ''AAPL'', row_quantity = Decimal 200000000 (- 8),
                 row_average_cost = Some (Decimal 10000 (- 2)),
                 row_market_price = Some (Decimal 15000 (- 2)),
                 row_market_value = Some (Decimal 30000 (- 2)),
                 row_unrealized_pl = Some (Decimal 10000 (- 2))\<rparr>"
  let ?rb = "\<lparr>row_symbol = Some ''XYZ'', row_quantity = Decimal 100000000 (- 8),
                 row_average_cost = Some (Decimal 500 (- 2)),
                 row_market_price = None, row_market_value = None,
                 row_unrealized_pl = None\<rparr>"
  let ?small = "\<lparr>bd_holdings = [?ra], bd_total_market_value = Decimal 30000 (- 2),
             bd_total_unrealized_pl = Decimal 10000 (- 2)\<rparr>"
  let ?big = "\<lparr>bd_holdings = [?ra, ?rb], bd_total_market_value = Decimal 30000 (- 2),
             bd_total_unrealized_pl = Decimal 10000 (- 2)\<rparr>"
  have g1: "get_share_price (Some ''AAPL'') = Inr (PyNum (Decimal 15000 (- 2)))" by code_simp
  have g2: "get_share_price (Some ''XYZ'') = Inl Pricing_UnsupportedSymbolError" by code_simp
  have i1: "is_holding ?ha" and i2: "is_holding ?hb" by (simp_all add: valuation_eval)
  have all: "\<forall>h \<in> set [?ha, ?hb]. is_holding h" using i1 i2 by simp
  have ra: "breakdown_row_of (Some get_share_price) [] ?ha = Inr ?ra"
    by (simp add: valuation_eval g1)
  have rb: "breakdown_row_of (Some get_share_price) [] ?hb = Inr ?rb"
    by (simp add: valuation_eval g2)
  have pa: "price_resolves (Some get_share_price) [] ?ha"
    by (simp add: valuation_eval g1)
  have pb: "\<not> price_resolves (Some get_share_price) [] ?hb"
    by (simp add: valuation_eval g2)
  have sub: "portfolio_breakdown (Some get_share_price)
        (filter (price_resolves (Some get_share_price) []) [?ha, ?hb]) [] = Inr ?small"
    using pa pb by (simp add: portfolio_breakdown_def ra)
       (simp add: add_if_present_def dec_add_exact dec_align_def quantize_def PREC_def CENT_def)
  have whole: "portfolio_breakdown (Some get_share_price) [?ha, ?hb] [] = Inr ?big"
    by (simp add: portfolio_breakdown_def ra rb)
       (simp add: add_if_present_def dec_add_exact dec_align_def quantize_def PREC_def CENT_def)
  from portfolio_breakdown_partial_failure [OF all sub] whole
  have "bd_total_market_value ?big = bd_total_market_value ?small" by auto
  then show ?thesis using i1 i2 sub whole by blast
qed

section \<open>Properties: trading.py\<close>

text \<open>
  With the class \<open>Transaction\<close> as the file defines it, \<open>buy\<close> never gets past the
  construction of the entry: every call raises, none with InsufficientFundsError, and the
  state is left as it was.
\<close>

lemma buy_never_returns:
  assumes "dep_trade deps = Transaction_trade"
  shows "\<exists>e. TradingEngine_buy deps te account_id portfolio_id symbol quantity price
                use_market_price transaction_id = (Inl e, te)
             \<and> e \<noteq> Validators_InsufficientFundsError"
  using assms
  by (auto simp: TradingEngine_buy_def Transaction_trade_def resolve_trade_price_def
      split: sum.splits option.splits)

text \<open>
  The same holds were the factory defined as the text of line 178 reads: the entry it
  builds keeps the default amount 0.00, which the validation of the funds refuses as an
  invalid amount.
\<close>

lemma lower_buy: "lower ''buy'' = ''buy''"
  by code_simp

lemma trade_text_buy_amount:
  assumes "Transaction_trade_text now uuid account_id ''buy'' quantity price PyNone tid = Inr tx"
  shows "tx_amount tx = PyNum (Decimal 0 (- 2))"
proof -
  from assms obtain qty pr where
    "Transaction_post_init
       \<lparr>tx_transaction_id = (case tid of None \<Rightarrow> uuid | Some t \<Rightarrow> t), tx_kind = ''buy'',
        tx_account_id = account_id, tx_from_account = None,
        tx_to_account = None, tx_quantity = PyNum qty,
        tx_price = PyNum pr, tx_amount = PyNum (Decimal 0 (- 2)),
        tx_profit_loss = PyNone, tx_created_at = now,
        tx_executed_at = None, tx_metadata = None\<rparr> = Inr tx"
    by (auto simp: Transaction_trade_text_def lower_buy Let_def split: sum.splits if_splits)
  then show ?thesis
    using trade_kinds_unvalidated [of "\<lparr>tx_transaction_id = (case tid of None \<Rightarrow> uuid | Some t \<Rightarrow> t), tx_kind = ''buy'',
        tx_account_id = account_id, tx_from_account = None,
        tx_to_account = None, tx_quantity = PyNum qty,
        tx_price = PyNum pr, tx_amount = PyNum (Decimal 0 (- 2)),
        tx_profit_loss = PyNone, tx_created_at = now,
        tx_executed_at = None, tx_metadata = None\<rparr>"]
    by auto
qed

lemma zero_amount_invalid:
  "validate_sufficient_funds balance (PyNum (Decimal 0 (- 2))) = Inl Validators_InvalidAmountError"
  by (simp add: validate_sufficient_funds_def validate_amount_def to_decimal_cents_def
      py_Decimal_def quantize_def CENT_def PREC_def dec_le_def dec_align_def dec_zero_def)

lemma buy_never_returns_text:
  assumes "dep_trade deps = Transaction_trade_text now uuid"
  shows "\<exists>e. TradingEngine_buy deps te account_id portfolio_id symbol quantity price
                use_market_price transaction_id = (Inl e, te)
             \<and> e \<noteq> Validators_InsufficientFundsError"
proof -
  have t: "tx_amount tx = PyNum (Decimal 0 (- 2))"
    if "dep_trade deps (Some account_id) ''buy'' q p PyNone transaction_id = Inr tx" for q p tx
    using that assms trade_text_buy_amount by simp
  show ?thesis
    by (auto simp: TradingEngine_buy_def resolve_trade_price_def zero_amount_invalid
        dest!: t split: sum.splits option.splits)
qed

text \<open>
  C4.  The claim promises an insufficiency error for scenario C: balance 10.00, market price
  of AAPL 150.00, quantity 1.  The code raises TradingError there (balance and portfolio are
  indeed unchanged).
\<close>

theorem buy_insufficient_funds_raises_TradingError:
  "TradingEngine_buy
     \<lparr>dep_trade = Transaction_trade, dep_supported = None,
      dep_get_share_price = get_share_price, dep_save_transaction = save_transaction ''u1''\<rparr>
     \<lparr>te_accounts = [(''acct-2'', \<lparr>acct_owner = ''bob'', acct_account_id = ''acct-2'',
                                    acct_balance = Decimal 1000 (- 2), acct_currency = ''USD''\<rparr>)],
      te_portfolios = [(''p2'', \<lparr>pf_portfolio_id = ''p2'', pf_owner = ''bob'',
                                 pf_account_id = Some ''acct-2'', pf_currency = ''USD'',
                                 pf_holdings = []\<rparr>)],
      te_transactions = [], te_heap = \<lparr>hp_holdings = [], hp_lists = []\<rparr>\<rparr>
     ''acct-2'' ''p2'' ''AAPL'' (PyNum (Decimal 1 0)) PyNone True None
   = (Inl TradingError,
      \<lparr>te_accounts = [(''acct-2'', \<lparr>acct_owner = ''bob'', acct_account_id = ''acct-2'',
                                    acct_balance = Decimal 1000 (- 2), acct_currency = ''USD''\<rparr>)],
       te_portfolios = [(''p2'', \<lparr>pf_portfolio_id = ''p2'', pf_owner = ''bob'',
                                 pf_account_id = Some ''acct-2'', pf_currency = ''USD'',
                                 pf_holdings = []\<rparr>)],
       te_transactions = [], te_heap = \<lparr>hp_holdings = [], hp_lists = []\<rparr>\<rparr>)"
proof -
  have u: "upper ''AAPL'' = ''AAPL''" by code_simp
  have g: "get_share_price (Some ''AAPL'') = Inr (PyNum (Decimal 15000 (- 2)))" by code_simp
  show ?thesis
    by (simp add: TradingEngine_buy_def validate_symbol_def u resolve_trade_price_def g
        Transaction_trade_def)
qed

theorem buy_insufficient_funds_raises_TradingError_witness:
  "fst (TradingEngine_buy
     \<lparr>dep_trade = Transaction_trade, dep_supported = None,
      dep_get_share_price = get_share_price, dep_save_transaction = save_transaction ''u1''\<rparr>
     \<lparr>te_accounts = [(''acct-2'', \<lparr>acct_owner = ''bob'', acct_account_id = ''acct-2'',
                                    acct_balance = Decimal 1000 (- 2), acct_currency = ''USD''\<rparr>)],
      te_portfolios = [(''p2'', \<lparr>pf_portfolio_id = ''p2'', pf_owner = ''bob'',
                                 pf_account_id = Some ''acct-2'', pf_currency = ''USD'',
                                 pf_holdings = []\<rparr>)],
      te_transactions = [], te_heap = \<lparr>hp_holdings = [], hp_lists = []\<rparr>\<rparr>
     ''acct-2'' ''p2'' ''AAPL'' (PyNum (Decimal 1 0)) PyNone True None)
   \<noteq> Inl Validators_InsufficientFundsError"
  using buy_insufficient_funds_raises_TradingError by simp

lemma buy_text_reading_raises_TradingError:
  "TradingEngine_buy
     \<lparr>dep_trade = Transaction_trade_text \<lparr>dt_naive = 0, dt_tzinfo = Some UTC\<rparr> ''u0'',
      dep_supported = None,
      dep_get_share_price = get_share_price, dep_save_transaction = save_transaction ''u1''\<rparr>
     \<lparr>te_accounts = [(''acct-2'', \<lparr>acct_owner = ''bob'', acct_account_id = ''acct-2'',
                                    acct_balance = Decimal 1000 (- 2), acct_currency = ''USD''\<rparr>)],
      te_portfolios = [(''p2'', \<lparr>pf_portfolio_id = ''p2'', pf_owner = ''bob'',
                                 pf_account_id = Some ''acct-2'', pf_currency = ''USD'',
                                 pf_holdings = []\<rparr>)],
      te_transactions = [], te_heap = \<lparr>hp_holdings = [], hp_lists = []\<rparr>\<rparr>
     ''acct-2'' ''p2'' ''AAPL'' (PyNum (Decimal 1 0)) PyNone True None
   = (Inl TradingError,
      \<lparr>te_accounts = [(''acct-2'', \<lparr>acct_owner = ''bob'', acct_account_id = ''acct-2'',
                                    acct_balance = Decimal 1000 (- 2), acct_currency = ''USD''\<rparr>)],
       te_portfolios = [(''p2'', \<lparr>pf_portfolio_id = ''p2'', pf_owner = ''bob'',
                                 pf_account_id = Some ''acct-2'', pf_currency = ''USD'',
                                 pf_holdings = []\<rparr>)],
       te_transactions = [], te_heap = \<lparr>hp_holdings = [], hp_lists = []\<rparr>\<rparr>)"
proof -
  have u: "upper ''AAPL'' = ''AAPL''" by code_simp
  have g: "get_share_price (Some ''AAPL'') = Inr (PyNum (Decimal 15000 (- 2)))" by code_simp
  have t: "Transaction_trade_text \<lparr>dt_naive = 0, dt_tzinfo = Some UTC\<rparr> ''u0'' (Some ''acct-2'')
             ''buy'' (PyNum (Decimal 1 0)) (PyNum (Decimal 15000 (- 2))) PyNone None
           = Inr \<lparr>tx_transaction_id = ''u0'', tx_kind = ''buy'',
                  tx_account_id = Some ''acct-2'', tx_from_account = None,
                  tx_to_account = None, tx_quantity = PyNum (Decimal 100000000 (- 8)),
                  tx_price = PyNum (Decimal 15000 (- 2)), tx_amount = PyNum (Decimal 0 (- 2)),
                  tx_profit_loss = PyNone,
                  tx_created_at = \<lparr>dt_naive = 0, dt_tzinfo = Some UTC\<rparr>,
                  tx_executed_at = None, tx_metadata = None\<rparr>"
    by code_simp
  show ?thesis
    by (simp add: TradingEngine_buy_def validate_symbol_def u resolve_trade_price_def g t
        svc_get_account_def dict_get_def zero_amount_invalid)
qed

end
